theory Spec2Isabelle
  imports Complex_Main "HOL-Library.Multiset"
begin

section \<open>Train\_profile.py: the training script\<close>

text \<open>
  The script has two parts: \<open>parsing\<close>, which reads and validates the command line, and
  the main block, which builds the model, loads the data, remaps the exclusion indices
  and constructs the two window generators before fitting. Both are embedded below.
  The modules the script imports (\<open>Modules.utils\<close>, \<open>Modules.tf_utils\<close>,
  \<open>Modules.models\<close>, TensorFlow) are not part of this file: their calls appear as
  parameters of the main block and as events of its trace.

  Strings are byte strings: command-line values are taken to be ASCII. Lengths and
  offsets are unbounded integers, as Python's are; the exclusion indices are elements of
  NumPy arrays of a fixed-width integer type, whose addition wraps around.
\<close>

subsection \<open>Errors\<close>

datatype error =
    SystemExit string   \<comment> \<open>\<open>sys.exit(message)\<close>\<close>
  | ValueError string   \<comment> \<open>\<open>int(c)\<close> on a string that is no integer literal or has
                            too many digits; \<open>np.concatenate\<close> of an empty list\<close>
  | KeyError string     \<comment> \<open>a missing dictionary or archive key\<close>
  | OverflowError string  \<comment> \<open>a Python integer out of bounds for a NumPy integer type\<close>
  | OSError string      \<comment> \<open>\<open>np.load\<close> on a path it cannot read\<close>

subsection \<open>The parsed command line\<close>

text \<open>
  The namespace returned by \<open>parser.parse_args()\<close>, one field per \<open>add_argument\<close> in
  the order of the source. An optional argument whose default is \<open>None\<close> is an option.
\<close>

record args =
  architecture :: string
  genome :: string
  labels :: string
  output_dir :: string  \<comment> \<open>\<open>--output\<close>\<close>
  chrom_train :: "string list"
  chrom_valid :: "string list"
  strand :: string
  winsize :: int
  head_interval :: "int option"
  learn_rate :: real  \<comment> \<open>a float; only handed on to the optimizer\<close>
  epochs :: int
  batch_size :: int
  same_samples :: bool
  max_train :: int
  max_valid :: int
  balance :: "string option"
  n_classes :: int
  remove0s :: bool
  removeNs :: bool
  remove_indices :: "string option"
  seed :: "int option"
  disable_autotune :: bool
  patience :: int
  distribute :: bool
  verbose :: int

subsection \<open>Files and archives\<close>

text \<open>
  An npz archive maps a chromosome identifier to an array. The genome archive holds
  arrays of one-hot rows (\<open>'g\<close>), the labels archive arrays of signal values (\<open>'l\<close>),
  the exclusion archive arrays of integer positions. \<open>np_load_*\<close> is \<open>np.load\<close> on a
  path holding such an archive; \<open>None\<close> is a path \<open>np.load\<close> cannot read.

  The arrays of an exclusion archive are taken to be one-dimensional and of one NumPy
  integer type (\<open>int8\<close> to \<open>int64\<close>, \<open>uint8\<close> to \<open>uint64\<close>), which
  \<open>indices_dtype\<close> gives for the archive at a path; an element is written as the
  integer it stands for, between \<open>dtype_min\<close> and \<open>dtype_max\<close>.
\<close>

type_synonym 'a npz = "string \<rightharpoonup> 'a list"

record dtype =
  dt_signed :: bool
  dt_bits :: nat

definition dtype_min :: "dtype \<Rightarrow> int" where
  "dtype_min d = (if dt_signed d then - (2 ^ (dt_bits d - 1)) else 0)"

definition dtype_max :: "dtype \<Rightarrow> int" where
  "dtype_max d = (if dt_signed d then 2 ^ (dt_bits d - 1) - 1 else 2 ^ dt_bits d - 1)"

definition int64 :: dtype where
  "int64 = \<lparr>dt_signed = True, dt_bits = 64\<rparr>"

definition uint8 :: dtype where
  "uint8 = \<lparr>dt_signed = False, dt_bits = 8\<rparr>"

record ('g, 'l) filesystem =
  is_file :: "string \<Rightarrow> bool"
  np_load_genome :: "string \<Rightarrow> 'g npz option"
  np_load_labels :: "string \<Rightarrow> 'l npz option"
  np_load_indices :: "string \<Rightarrow> int npz option"
  indices_dtype :: "string \<Rightarrow> dtype"

subsection \<open>\<open>Path(p).stem\<close>\<close>

text \<open>
  \<open>pathlib\<close> on POSIX (CPython up to 3.13): the name is the last component of the
  path, empty components and \<open>.\<close> components dropped; the stem is the name without its
  last suffix, where a dot that starts or ends the name begins no suffix.
\<close>

fun split_sep :: "string \<Rightarrow> string \<Rightarrow> string list" where
  "split_sep cur [] = [cur]"
| "split_sep cur (c # cs) =
     (if c = CHR ''/'' then cur # split_sep [] cs else split_sep (cur @ [c]) cs)"

definition path_name :: "string \<Rightarrow> string" where
  "path_name p =
     (case filter (\<lambda>q. q \<noteq> [] \<and> q \<noteq> ''.'') (split_sep [] p) of
        [] \<Rightarrow> []
      | q # qs \<Rightarrow> last (q # qs))"

fun rfind_dot :: "string \<Rightarrow> nat option" where
  "rfind_dot [] = None"
| "rfind_dot (c # cs) =
     (case rfind_dot cs of
        Some i \<Rightarrow> Some (Suc i)
      | None \<Rightarrow> if c = CHR ''.'' then Some 0 else None)"

definition stem :: "string \<Rightarrow> string" where
  "stem p =
     (let name = path_name p in
      case rfind_dot name of
        None \<Rightarrow> name
      | Some i \<Rightarrow> if 0 < i \<and> i < length name - 1 then take i name else name)"

subsection \<open>\<open>int(c)\<close> and \<open>format(n, "02d")\<close>\<close>

text \<open>
  Python's \<open>int\<close> on an ASCII string, base ten (CPython 3.11 and later): surrounding
  whitespace (tab, line feed, vertical tab, form feed, carriage return, space) is
  stripped, one sign is allowed, then decimal digits, where a single underscore may stand
  between two digits. Anything else raises \<open>ValueError\<close>, and so does a literal of more
  than \<open>max_str_digits\<close> digits (signs, whitespace and underscores not counted), the
  default of \<open>sys.get_int_max_str_digits()\<close>, which the script does not change.
\<close>

definition py_isspace :: "char \<Rightarrow> bool" where
  "py_isspace c \<longleftrightarrow>
     c \<in> set [CHR 0x09, CHR 0x0A, CHR 0x0B, CHR 0x0C, CHR 0x0D, CHR 0x20]"

definition max_str_digits :: nat where
  "max_str_digits = 4300"

definition strip :: "string \<Rightarrow> string" where
  "strip s = rev (dropWhile py_isspace (rev (dropWhile py_isspace s)))"

definition digit_val :: "char \<Rightarrow> nat option" where
  "digit_val c =
     (let n = (of_char c :: nat) in if 48 \<le> n \<and> n \<le> 57 then Some (n - 48) else None)"

fun int_digits :: "nat \<Rightarrow> string \<Rightarrow> nat option" where
  "int_digits acc [] = Some acc"
| "int_digits acc (c # cs) =
     (if c = CHR ''_'' then
        (case cs of
           [] \<Rightarrow> None
         | d # ds \<Rightarrow>
             (case digit_val d of
                None \<Rightarrow> None
              | Some v \<Rightarrow> int_digits (10 * acc + v) ds))
      else
        (case digit_val c of
           None \<Rightarrow> None
         | Some v \<Rightarrow> int_digits (10 * acc + v) cs))"

definition int_unsigned :: "string \<Rightarrow> nat option" where
  "int_unsigned s =
     (case s of
        [] \<Rightarrow> None
      | d # ds \<Rightarrow> (case digit_val d of None \<Rightarrow> None | Some v \<Rightarrow> int_digits v ds))"

definition py_int :: "string \<Rightarrow> error + int" where
  "py_int s =
     (let t = strip s;
          r = (case t of
                 [] \<Rightarrow> None
               | c # cs \<Rightarrow>
                   if c = CHR ''-'' then map_option (\<lambda>n. - int n) (int_unsigned cs)
                   else if c = CHR ''+'' then map_option int (int_unsigned cs)
                   else map_option int (int_unsigned t))
      in case r of
           None \<Rightarrow> Inl (ValueError s)
         | Some n \<Rightarrow>
             if max_str_digits < length (filter (\<lambda>d. digit_val d \<noteq> None) t)
             then Inl (ValueError s)
             else Inr n)"

text \<open>Decimal digits of a natural number, most significant first.\<close>

definition digit_char :: "nat \<Rightarrow> char" where
  "digit_char d = ''0123456789'' ! (d mod 10)"

fun decimal :: "nat \<Rightarrow> string" where
  "decimal n = (if n < 10 then [digit_char n] else decimal (n div 10) @ [digit_char (n mod 10)])"

declare decimal.simps [simp del]

text \<open>
  \<open>format(n, "02d")\<close>: sign-aware zero padding to a minimum width of two characters.
  A negative number already has two characters with its sign.
\<close>

definition format_02d :: "int \<Rightarrow> string" where
  "format_02d n =
     (if n < 0 then CHR ''-'' # decimal (nat (- n))
      else let ds = decimal (nat n) in replicate (2 - length ds) CHR ''0'' @ ds)"

subsection \<open>\<open>parsing\<close>: the rewriting of chromosome identifiers\<close>

text \<open>
  A list comprehension that may raise: the elements are computed left to right and the
  first exception ends it.
\<close>

fun comprehension :: "('a \<Rightarrow> error + 'b) \<Rightarrow> 'a list \<Rightarrow> error + 'b list" where
  "comprehension f [] = Inr []"
| "comprehension f (x # xs) =
     (case f x of
        Inl e \<Rightarrow> Inl e
      | Inr y \<Rightarrow> (case comprehension f xs of Inl e \<Rightarrow> Inl e | Inr ys \<Rightarrow> Inr (y # ys)))"

definition w303_id :: "string \<Rightarrow> error + string" where
  "w303_id c = (case py_int c of Inl e \<Rightarrow> Inl e | Inr n \<Rightarrow> Inr (''chr'' @ format_02d n))"

definition mmmyco_id :: "string \<Rightarrow> string" where
  "mmmyco_id c = (if c \<noteq> ''Mmmyco'' then ''chr'' @ c else c)"

text \<open>Lines 231 to 237: the two identifier lists are rewritten, training first.\<close>

definition rewrite_chroms :: "args \<Rightarrow> error + args" where
  "rewrite_chroms a =
     (let genome_name = stem (genome a) in
      if genome_name = ''W303'' then
        (case comprehension w303_id (chrom_train a) of
           Inl e \<Rightarrow> Inl e
         | Inr ct \<Rightarrow>
             (case comprehension w303_id (chrom_valid a) of
                Inl e \<Rightarrow> Inl e
              | Inr cv \<Rightarrow> Inr (a\<lparr>chrom_train := ct, chrom_valid := cv\<rparr>)))
      else if genome_name = ''W303_Mmmyco'' then
        Inr (a\<lparr>chrom_train := map mmmyco_id (chrom_train a),
                chrom_valid := map mmmyco_id (chrom_valid a)\<rparr>)
      else Inr a)"

subsection \<open>\<open>parsing\<close>: the validation\<close>

text \<open>
  The loops of lines 240 and 248 leave at the first identifier that fails the test;
  \<open>find\<close> returns that identifier.
\<close>

definition newline :: char where
  "newline = CHR 0x0A"

definition parsing :: "('g, 'l) filesystem \<Rightarrow> args \<Rightarrow> error + args" where
  "parsing fs a0 =
     (if \<not> is_file fs (genome a0) then
        Inl (SystemExit (genome a0 @ '' does not exist.'' @ [newline]
                         @ ''Please enter a valid genome file path.''))
      else if \<not> is_file fs (labels a0) then
        Inl (SystemExit (labels a0 @ '' does not exist.'' @ [newline]
                         @ ''Please enter a valid labels file path.''))
      else
        (case rewrite_chroms a0 of
           Inl e \<Rightarrow> Inl e
         | Inr a \<Rightarrow>
        (case np_load_genome fs (genome a) of
           None \<Rightarrow> Inl (OSError (genome a))
         | Some g \<Rightarrow>
        (case np_load_labels fs (labels a) of
           None \<Rightarrow> Inl (OSError (labels a))
         | Some s \<Rightarrow>
        (case find (\<lambda>chr_id. \<not> (chr_id \<in> dom g \<and> chr_id \<in> dom s))
                (chrom_train a @ chrom_valid a) of
           Some chr_id \<Rightarrow>
             Inl (SystemExit (chr_id @ '' is not a valid chromosome id in ''
                              @ genome a @ '' and '' @ labels a))
         | None \<Rightarrow>
        (case remove_indices a of
           None \<Rightarrow> Inr a
         | Some path \<Rightarrow>
        (case np_load_indices fs path of
           None \<Rightarrow> Inl (OSError path)
         | Some r \<Rightarrow>
        (case find (\<lambda>chr_id. chr_id \<notin> dom r) (chrom_train a @ chrom_valid a) of
           Some chr_id \<Rightarrow>
             Inl (SystemExit (chr_id @ '' is not a valid chromosome id in '' @ path))
         | None \<Rightarrow> Inr a))))))))"

subsection \<open>The main block: exclusion indices in merged coordinates\<close>

text \<open>
  \<open>array + n\<close> for an array of the integer type \<open>d\<close> and a Python integer \<open>n\<close>
  that \<open>d\<close> can hold: the result has the type \<open>d\<close> again, and each sum is taken
  modulo \<open>2 ^ dt_bits d\<close> into the range of \<open>d\<close>, silently. For a Python integer
  that \<open>d\<close> cannot hold, NumPy 2 raises \<open>OverflowError\<close>, which is what the model
  does; NumPy 1 gives the result a wider type instead, which is not modelled.
\<close>

definition wrap :: "dtype \<Rightarrow> int \<Rightarrow> int" where
  "wrap d v =
     (if dt_signed d
      then (v + 2 ^ (dt_bits d - 1)) mod 2 ^ dt_bits d - 2 ^ (dt_bits d - 1)
      else v mod 2 ^ dt_bits d)"

definition add_scalar :: "dtype \<Rightarrow> int list \<Rightarrow> int \<Rightarrow> error + int list" where
  "add_scalar d array n =
     (if dtype_min d \<le> n \<and> n \<le> dtype_max d
      then Inr (map (\<lambda>x. wrap d (x + n)) array)
      else Inl (OverflowError ''Python integer out of bounds''))"

text \<open>
  Lines 314 to 323. Each loop appends \<open>f[k] + total_len\<close> to a list and then advances
  \<open>total_len\<close> by \<open>len(s[k]) + 1\<close>; the list is concatenated after the loop.
  \<open>f[k]\<close> is read before \<open>s[k]\<close>; either raises \<open>KeyError\<close> on a missing key.
  \<open>d\<close> is the integer type of the arrays of \<open>f\<close>.
\<close>

fun remove_indices_loop ::
  "dtype \<Rightarrow> int npz \<Rightarrow> 'l npz \<Rightarrow> string list \<Rightarrow> int list list \<Rightarrow> int
   \<Rightarrow> error + int list list" where
  "remove_indices_loop d f s [] arrays total_len = Inr arrays"
| "remove_indices_loop d f s (k # ks) arrays total_len =
     (case f k of
        None \<Rightarrow> Inl (KeyError k)
      | Some fk \<Rightarrow>
          (case add_scalar d fk total_len of
             Inl e \<Rightarrow> Inl e
           | Inr moved \<Rightarrow>
               (case s k of
                  None \<Rightarrow> Inl (KeyError k)
                | Some sk \<Rightarrow>
                    remove_indices_loop d f s ks
                      (arrays @ [moved])
                      (total_len + (int (length sk) + 1)))))"

definition np_concatenate :: "int list list \<Rightarrow> error + int list" where
  "np_concatenate arrays =
     (if arrays = [] then Inl (ValueError ''need at least one array to concatenate'')
      else Inr (concat arrays))"

definition remove_indices_merged ::
  "dtype \<Rightarrow> int npz \<Rightarrow> 'l npz \<Rightarrow> string list \<Rightarrow> error + int list" where
  "remove_indices_merged d f s chroms =
     (case remove_indices_loop d f s chroms [] 0 of
        Inl e \<Rightarrow> Inl e
      | Inr arrays \<Rightarrow> np_concatenate arrays)"

text \<open>Lines 311 to 326: \<open>(remove_indices_train, remove_indices_valid)\<close>.\<close>

definition load_remove_indices ::
  "('g, 'l) filesystem \<Rightarrow> args \<Rightarrow> error + (int list option \<times> int list option)" where
  "load_remove_indices fs a =
     (case remove_indices a of
        None \<Rightarrow> Inr (None, None)
      | Some path \<Rightarrow>
     (case np_load_indices fs path of
        None \<Rightarrow> Inl (OSError path)
      | Some f \<Rightarrow>
     (case np_load_labels fs (labels a) of
        None \<Rightarrow> Inl (OSError (labels a))
      | Some s \<Rightarrow>
     (case remove_indices_merged (indices_dtype fs path) f s (chrom_train a) of
        Inl e \<Rightarrow> Inl e
      | Inr remove_indices_train \<Rightarrow>
     (case remove_indices_merged (indices_dtype fs path) f s (chrom_valid a) of
        Inl e \<Rightarrow> Inl e
      | Inr remove_indices_valid \<Rightarrow>
          Inr (Some remove_indices_train, Some remove_indices_valid))))))"

subsection \<open>The main block: model and generators\<close>

datatype model_builder = mnase_Etienne | bassenji_Etienne

definition model_dict :: "string \<rightharpoonup> model_builder" where
  "model_dict =
     [''mnase_Etienne'' \<mapsto> mnase_Etienne, ''bassenji_Etienne'' \<mapsto> bassenji_Etienne]"

text \<open>
  The keyword arguments of one \<open>tf_utils.WindowGenerator(...)\<close> call. The two calls of
  the script pass the same keywords but for \<open>balance\<close> and \<open>n_classes\<close>, which the
  second call leaves out: those two fields record whether the keyword was written.
\<close>

datatype 'a kwarg = Omitted | Passed 'a

record ('x, 'y) kwargs =
  kw_data :: 'x
  kw_labels :: 'y
  kw_winsize :: int
  kw_batch_size :: int
  kw_max_data :: int
  kw_same_samples :: bool
  kw_balance :: "string option kwarg"
  kw_n_classes :: "int kwarg"
  kw_strand :: string
  kw_head_interval :: "int option"
  kw_remove0s :: bool
  kw_removeNs :: bool
  kw_remove_indices :: "int list option"
  kw_seed :: "int option"

definition generator_train ::
  "args \<Rightarrow> 'x \<Rightarrow> 'y \<Rightarrow> int list option \<Rightarrow> ('x, 'y) kwargs" where
  "generator_train a x_train y_train remove_indices_train =
     \<lparr>kw_data = x_train,
      kw_labels = y_train,
      kw_winsize = winsize a,
      kw_batch_size = batch_size a,
      kw_max_data = max_train a,
      kw_same_samples = same_samples a,
      kw_balance = Passed (balance a),
      kw_n_classes = Passed (n_classes a),
      kw_strand = strand a,
      kw_head_interval = head_interval a,
      kw_remove0s = remove0s a,
      kw_removeNs = removeNs a,
      kw_remove_indices = remove_indices_train,
      kw_seed = seed a\<rparr>"

definition generator_valid ::
  "args \<Rightarrow> 'x \<Rightarrow> 'y \<Rightarrow> int list option \<Rightarrow> ('x, 'y) kwargs" where
  "generator_valid a x_valid y_valid remove_indices_valid =
     \<lparr>kw_data = x_valid,
      kw_labels = y_valid,
      kw_winsize = winsize a,
      kw_batch_size = batch_size a,
      kw_max_data = max_valid a,
      kw_same_samples = True,
      kw_balance = Omitted,
      kw_n_classes = Omitted,
      kw_strand = strand a,
      kw_head_interval = head_interval a,
      kw_remove0s = remove0s a,
      kw_removeNs = removeNs a,
      kw_remove_indices = remove_indices_valid,
      kw_seed = Some 0\<rparr>"

text \<open>
  Modelled from the spec: the effect of the \<open>balance\<close> parameter of
  \<open>tf_utils.WindowGenerator\<close>, whose signature is not in \<open>Train_profile.py\<close>. The
  class balancer is "only active when a balancing mode is requested ("global" or
  "batch"); absent when unset (uniform sampling)".
\<close>

definition balancer_active :: "string option kwarg \<Rightarrow> bool" where
  "balancer_active b =
     (case b of
        Omitted \<Rightarrow> False
      | Passed None \<Rightarrow> False
      | Passed (Some mode) \<Rightarrow> mode = ''global'' \<or> mode = ''batch'')"

subsection \<open>The main block: the run\<close>

text \<open>
  The functions the script calls in other modules are parameters of the run: what
  \<open>utils.merge_chroms\<close> returns for the genome and the labels archive, and whether
  the constructor of \<open>tf_utils.WindowGenerator\<close> raises.
\<close>

record ('x, 'y) modules =
  merge_chroms_genome :: "string list \<Rightarrow> string \<Rightarrow> error + 'x"
  merge_chroms_labels :: "string list \<Rightarrow> string \<Rightarrow> error + 'y"
  WindowGenerator :: "('x, 'y) kwargs \<Rightarrow> error + unit"

text \<open>
  A run is the list of the calls it made that act outside the script, in order, and how
  it ended. A call is listed when it is made, so a call that raises is the last of the
  list.
\<close>

datatype generator_name = Train | Valid

datatype ('x, 'y) event =
    WriteExperimentInfo string
  | SetSeed int
  | BuildModel model_builder int bool
  | MergeChroms "string list" string
  | Construct generator_name "('x, 'y) kwargs"
  | Fit
  | SaveModel

type_synonym ('x, 'y, 'a) run = "('x, 'y) event list \<times> (error + 'a)"

definition local :: "error + 'a \<Rightarrow> ('x, 'y, 'a) run" where
  "local r = ([], r)"

definition call :: "('x, 'y) event \<Rightarrow> error + 'a \<Rightarrow> ('x, 'y, 'a) run" where
  "call ev r = ([ev], r)"

definition and_then :: "('x, 'y, 'a) run \<Rightarrow> ('a \<Rightarrow> ('x, 'y, 'b) run) \<Rightarrow> ('x, 'y, 'b) run" where
  "and_then m k =
     (case m of
        (t, Inl e) \<Rightarrow> (t, Inl e)
      | (t, Inr v) \<Rightarrow> (case k v of (t', r) \<Rightarrow> (t @ t', r)))"

text \<open>
  Lines 257 to 397. The GPU settings, the callbacks and the timing lines have no part in
  what follows and are left out; the writing of the output directory is taken to
  succeed; \<open>model.fit\<close> and \<open>model.save\<close> are events.
\<close>

definition main :: "('g, 'l) filesystem \<Rightarrow> ('x, 'y) modules \<Rightarrow> args \<Rightarrow> ('x, 'y, unit) run" where
  "main fs md argv =
     and_then (local (parsing fs argv)) (\<lambda>a.
     and_then (call (WriteExperimentInfo (output_dir a)) (Inr ())) (\<lambda>_.
     and_then (case seed a of
                 None \<Rightarrow> local (Inr ())
               | Some sd \<Rightarrow> call (SetSeed sd) (Inr ())) (\<lambda>_.
     and_then (local (case model_dict (architecture a) of
                        None \<Rightarrow> Inl (KeyError (architecture a))
                      | Some b \<Rightarrow> Inr b)) (\<lambda>builder.
     and_then (call (BuildModel builder (winsize a) (distribute a)) (Inr ())) (\<lambda>_.
     and_then (call (MergeChroms (chrom_train a) (genome a))
                 (merge_chroms_genome md (chrom_train a) (genome a))) (\<lambda>x_train.
     and_then (call (MergeChroms (chrom_valid a) (genome a))
                 (merge_chroms_genome md (chrom_valid a) (genome a))) (\<lambda>x_valid.
     and_then (call (MergeChroms (chrom_train a) (labels a))
                 (merge_chroms_labels md (chrom_train a) (labels a))) (\<lambda>y_train.
     and_then (call (MergeChroms (chrom_valid a) (labels a))
                 (merge_chroms_labels md (chrom_valid a) (labels a))) (\<lambda>y_valid.
     and_then (local (load_remove_indices fs a)) (\<lambda>(remove_indices_train, remove_indices_valid).
     and_then (call (Construct Train (generator_train a x_train y_train remove_indices_train))
                 (WindowGenerator md (generator_train a x_train y_train remove_indices_train))) (\<lambda>_.
     and_then (call (Construct Valid (generator_valid a x_valid y_valid remove_indices_valid))
                 (WindowGenerator md (generator_valid a x_valid y_valid remove_indices_valid))) (\<lambda>_.
     and_then (call Fit (Inr ())) (\<lambda>_.
     call SaveModel (Inr ()))))))))))))))"

section \<open>The window sampler of the specification\<close>

text \<open>
  \<open>tf_utils.WindowGenerator\<close> is not among the sources. What the specification says
  of its sampler is modelled here, for the one claim about it. Positions are natural
  numbers; the state of the random generator is any type \<open>'r\<close>, and the two random
  operations the sampler needs are parameters.
\<close>

text \<open>
  Modelled from the spec: the state of the WindowSampler, which is in
  \<open>tf_utils.WindowGenerator\<close> and not in \<open>Train_profile.py\<close>. It holds the eligible
  positions ("computed once", "read-only thereafter"), the batch size, the
  \<open>same_samples\<close> mode, the used-index tracker ("positions already emitted during the
  current epoch", "reset to empty when exhausted"), the positions of the current
  coverage cycle still to be emitted, and the random state. The cap \<open>max_data\<close> and
  the balancing weights are not modelled.
\<close>

record 'r window_sampler =
  eligible :: "nat list"
  ws_batch_size :: nat
  ws_same_samples :: bool
  pending :: "nat list"
  used :: "nat list"
  rng :: 'r

text \<open>
  Modelled from the spec: one batch request to the WindowSampler (absent from the
  sources, as above). With \<open>same_samples\<close> the sampler "draws i.i.d. from the full
  weighted distribution over eligible positions (with replacement across batches and
  across epochs)": the batch is what \<open>choice\<close> returns. Without it "the sampler
  partitions the eligible set into epoch-sized chunks without replacement until
  exhausted, then reshuffles and starts a new cycle": when nothing is pending the
  eligible positions are shuffled and the tracker is reset; the batch is the next
  \<open>batch_size\<close> pending positions, "or fewer for a final partial batch".
\<close>

definition fetch ::
  "('r \<Rightarrow> nat list \<Rightarrow> nat list \<times> 'r) \<Rightarrow> ('r \<Rightarrow> nat \<Rightarrow> nat list \<Rightarrow> nat list \<times> 'r)
   \<Rightarrow> 'r window_sampler \<Rightarrow> nat list \<times> 'r window_sampler" where
  "fetch shuffle choice st =
     (if ws_same_samples st then
        (case choice (rng st) (ws_batch_size st) (eligible st) of
           (batch, r') \<Rightarrow> (batch, st\<lparr>rng := r'\<rparr>))
      else
        (let st1 = (if pending st = [] then
                      (case shuffle (rng st) (eligible st) of
                         (order, r') \<Rightarrow> st\<lparr>pending := order, used := [], rng := r'\<rparr>)
                    else st);
             batch = take (ws_batch_size st1) (pending st1)
         in (batch, st1\<lparr>pending := drop (ws_batch_size st1) (pending st1),
                         used := used st1 @ batch\<rparr>)))"

text \<open>
  Modelled from the spec: \<open>n\<close> consecutive batch requests (the generator's "fetch batch
  i" for consecutive \<open>i\<close>), with the batches in the order they were drawn.
\<close>

fun fetches ::
  "('r \<Rightarrow> nat list \<Rightarrow> nat list \<times> 'r) \<Rightarrow> ('r \<Rightarrow> nat \<Rightarrow> nat list \<Rightarrow> nat list \<times> 'r)
   \<Rightarrow> nat \<Rightarrow> 'r window_sampler \<Rightarrow> nat list list \<times> 'r window_sampler" where
  "fetches shuffle choice 0 st = ([], st)"
| "fetches shuffle choice (Suc n) st =
     (case fetch shuffle choice st of
        (batch, st') \<Rightarrow>
          (case fetches shuffle choice n st' of
             (batches, st'') \<Rightarrow> (batch # batches, st'')))"

text \<open>
  Modelled from the spec: the number of batches of one coverage cycle, the spec's
  "ceil(min(max_data, |eligible|) / batch_size)" where the cap \<open>max_data\<close> does not
  bind.
\<close>

definition batches_per_cycle :: "'r window_sampler \<Rightarrow> nat" where
  "batches_per_cycle st = (length (eligible st) + ws_batch_size st - 1) div ws_batch_size st"

text \<open>
  The specification's own example: ten eligible positions, batches of three. The shuffle
  of the example rotates the list by the random state.
\<close>

definition example_shuffle :: "nat \<Rightarrow> nat list \<Rightarrow> nat list \<times> nat" where
  "example_shuffle r xs = (rotate r xs, Suc r)"

definition example_choice :: "nat \<Rightarrow> nat \<Rightarrow> nat list \<Rightarrow> nat list \<times> nat" where
  "example_choice r k xs =
     (if xs = [] then ([], r)
      else (map (\<lambda>i. xs ! ((r + i) mod length xs)) [0..<k], r + k))"

definition example_sampler :: "nat window_sampler" where
  "example_sampler =
     \<lparr>eligible = [0, 1, 2, 3, 4, 5, 6, 7, 8, 9], ws_batch_size = 3, ws_same_samples = False,
      pending = [], used = [], rng = 4\<rparr>"

subsection \<open>The claims' own words\<close>

text \<open>
  The offset as the specification words it: the lengths of the chromosomes before
  chromosome \<open>i\<close>, plus \<open>i\<close> separator slots.
\<close>

definition offset_of_chromosome :: "nat list \<Rightarrow> nat \<Rightarrow> int" where
  "offset_of_chromosome lens i = int (sum_list (take i lens)) + int i"

text \<open>
  The exclusion indices in merged coordinates as the specification describes them: the
  indices of chromosome \<open>i\<close>, each moved by the offset of chromosome \<open>i\<close>, in the
  order of the chromosomes.
\<close>

definition merged_indices :: "int list list \<Rightarrow> nat list \<Rightarrow> int list" where
  "merged_indices idx lens =
     concat (map (\<lambda>i. map (\<lambda>x. x + offset_of_chromosome lens i) (idx ! i)) [0..<length idx])"

text \<open>The same with every sum taken in the integer type \<open>d\<close> of the archive.\<close>

definition merged_indices_in :: "dtype \<Rightarrow> int list list \<Rightarrow> nat list \<Rightarrow> int list" where
  "merged_indices_in d idx lens =
     concat (map (\<lambda>i. map (\<lambda>x. wrap d (x + offset_of_chromosome lens i)) (idx ! i))
               [0..<length idx])"

text \<open>
  The integer type \<open>d\<close> holds every offset and every moved index: no sum of the
  remapping leaves the range of \<open>d\<close>.
\<close>

definition indices_fit :: "dtype \<Rightarrow> int list list \<Rightarrow> nat list \<Rightarrow> bool" where
  "indices_fit d idx lens \<longleftrightarrow>
     0 < dt_bits d \<and>
     list_all (\<lambda>i. offset_of_chromosome lens i \<le> dtype_max d \<and>
                   list_all (\<lambda>x. dtype_min d \<le> x + offset_of_chromosome lens i \<and>
                                 x + offset_of_chromosome lens i \<le> dtype_max d) (idx ! i))
       [0..<length idx]"

text \<open>An identifier "zero-padded to two digits": zeros in front, up to two characters.\<close>

definition zero_padded :: "string \<Rightarrow> string" where
  "zero_padded c = replicate (2 - length c) CHR ''0'' @ c"

text \<open>
  An identifier written as a plain decimal numeral: digits only, at most
  \<open>max_str_digits\<close> of them, and no leading zero unless it has at most two digits.
\<close>

definition plain_numeral :: "string \<Rightarrow> bool" where
  "plain_numeral c \<longleftrightarrow>
     c \<noteq> [] \<and> list_all (\<lambda>d. digit_val d \<noteq> None) c \<and> length c \<le> max_str_digits \<and>
     (length c \<le> 2 \<or> hd c \<noteq> CHR ''0'')"

definition digits_value :: "nat \<Rightarrow> string \<Rightarrow> nat" where
  "digits_value acc ds = foldl (\<lambda>a d. 10 * a + (of_char d - 48)) acc ds"

subsection \<open>A small genome to run the script on\<close>

definition example_genome :: "nat list npz" where
  "example_genome =
     map_of [(''chrI'', [[1, 0, 0, 0], [0, 1, 0, 0], [0, 0, 0, 1]]),
             (''chrII'', [[0, 0, 1, 0], [0, 0, 0, 0]]),
             (''chrIII'', [[1, 0, 0, 0], [1, 0, 0, 0]]),
             (''chrIV'', [[0, 1, 0, 0]])]"

definition example_signal :: "real npz" where
  "example_signal =
     map_of [(''chrI'', [1, 0, 2]), (''chrII'', [1, 3]), (''chrIII'', [0, 3]), (''chrIV'', [5])]"

definition example_exclude :: "int npz" where
  "example_exclude =
     map_of [(''chrI'', [0, 2]), (''chrII'', [1]), (''chrIII'', [0, 1]), (''chrIV'', [0])]"

definition example_exclude_partial :: "int npz" where
  "example_exclude_partial = map_of [(''chrI'', [0, 2]), (''chrII'', [1]), (''chrIV'', [0])]"

definition w303_genome :: "nat list npz" where
  "w303_genome =
     map_of [(''chr01'', [[1, 0, 0, 0]]), (''chr12'', [[0, 1, 0, 0]]), (''chr03'', [[0, 0, 1, 0]]),
             (''chr07'', [[0, 0, 0, 1]]), (''chrV'', [[0, 0, 0, 1]]), (''Mmmyco'', [[1, 0, 0, 0]])]"

definition w303_signal :: "real npz" where
  "w303_signal =
     map_of [(''chr01'', [1]), (''chr12'', [2]), (''chr03'', [3]), (''chr07'', [4]),
             (''chrV'', [5]), (''Mmmyco'', [6])]"

text \<open>
  Three longer chromosomes, of 200, 100 and 50 bases, with an exclusion archive whose
  arrays are of type \<open>uint8\<close>: every index is below 256.
\<close>

definition long_genome :: "nat list npz" where
  "long_genome =
     map_of [(''chrL'', replicate 200 [1, 0, 0, 0]), (''chrS'', replicate 100 [0, 1, 0, 0]),
             (''chrT'', replicate 50 [0, 0, 1, 0])]"

definition long_signal :: "real npz" where
  "long_signal =
     map_of [(''chrL'', replicate 200 1), (''chrS'', replicate 100 2), (''chrT'', replicate 50 3)]"

definition exclude_u8 :: "int npz" where
  "exclude_u8 = map_of [(''chrL'', [7, 199]), (''chrS'', [99, 3]), (''chrT'', [49])]"

definition example_fs :: "(nat list, real) filesystem" where
  "example_fs =
     \<lparr>is_file = (\<lambda>p. p \<in> set [''data/genome.npz'', ''data/signal.npz'', ''data/exclude.npz'',
                                ''data/partial.npz'', ''data/W303.npz'',
                                ''data/W303_Mmmyco.npz'', ''data/W303_signal.npz'',
                                ''data/long.npz'', ''data/long_signal.npz'',
                                ''data/exclude_u8.npz'']),
      np_load_genome = map_of [(''data/genome.npz'', example_genome),
                               (''data/W303.npz'', w303_genome),
                               (''data/W303_Mmmyco.npz'', w303_genome),
                               (''data/long.npz'', long_genome)],
      np_load_labels = map_of [(''data/signal.npz'', example_signal),
                               (''data/W303_signal.npz'', w303_signal),
                               (''data/long_signal.npz'', long_signal)],
      np_load_indices = map_of [(''data/exclude.npz'', example_exclude),
                                (''data/partial.npz'', example_exclude_partial),
                                (''data/exclude_u8.npz'', exclude_u8)],
      indices_dtype = (\<lambda>p. if p = ''data/exclude_u8.npz'' then uint8 else int64)\<rparr>"

definition example_args :: args where
  "example_args =
     \<lparr>architecture = ''mnase_Etienne'',
      genome = ''data/genome.npz'',
      labels = ''data/signal.npz'',
      output_dir = ''out'',
      chrom_train = [''chrI'', ''chrII'', ''chrIII''],
      chrom_valid = [''chrIV''],
      strand = ''both'',
      winsize = 2001,
      head_interval = None,
      learn_rate = 1 / 1000,
      epochs = 100,
      batch_size = 1024,
      same_samples = False,
      max_train = 4194304,
      max_valid = 1048576,
      balance = Some ''global'',
      n_classes = 500,
      remove0s = True,
      removeNs = True,
      remove_indices = Some ''data/exclude.npz'',
      seed = Some 7,
      disable_autotune = False,
      patience = 6,
      distribute = False,
      verbose = 2\<rparr>"

definition w303_args :: args where
  "w303_args =
     example_args\<lparr>genome := ''data/W303.npz'', labels := ''data/W303_signal.npz'',
                  chrom_train := [''1'', ''12''], chrom_valid := [''3''],
                  remove_indices := None\<rparr>"

definition long_args :: args where
  "long_args =
     example_args\<lparr>genome := ''data/long.npz'', labels := ''data/long_signal.npz'',
                  chrom_train := [''chrL'', ''chrS''], chrom_valid := [''chrT''],
                  remove_indices := Some ''data/exclude_u8.npz''\<rparr>"

definition mmmyco_args :: args where
  "mmmyco_args =
     example_args\<lparr>genome := ''data/W303_Mmmyco.npz'', labels := ''data/W303_signal.npz'',
                  chrom_train := [''V'', ''Mmmyco''], chrom_valid := [''01''],
                  remove_indices := None\<rparr>"

text \<open>
  Stand-ins for the imported modules: the merged array is named by the identifiers and
  the file it was asked for, and the generator's constructor returns.
\<close>

definition example_modules :: "(string list \<times> string, string list \<times> string) modules" where
  "example_modules =
     \<lparr>merge_chroms_genome = (\<lambda>chroms file. Inr (chroms, file)),
      merge_chroms_labels = (\<lambda>chroms file. Inr (chroms, file)),
      WindowGenerator = (\<lambda>kw. Inr ())\<rparr>"

section \<open>Properties of \<open>parsing\<close>\<close>

lemma rewrite_chroms_keeps:
  assumes "rewrite_chroms a0 = Inr a"
  shows "genome a = genome a0" "labels a = labels a0" "remove_indices a = remove_indices a0"
    "architecture a = architecture a0"
  using assms
  by (auto simp: rewrite_chroms_def Let_def split: if_splits sum.splits)

lemma find_first: "x \<in> set xs \<Longrightarrow> P x \<Longrightarrow> \<exists>y. find P xs = Some y \<and> y \<in> set xs \<and> P y"
  by (induction xs) auto

lemma main_parsing_fails: "parsing fs a0 = Inl e \<Longrightarrow> main fs md a0 = ([], Inl e)"
  by (simp add: main_def and_then_def local_def)

lemma parsing_rewrites: "parsing fs a0 = Inr a \<Longrightarrow> rewrite_chroms a0 = Inr a"
  by (auto simp: parsing_def split: if_splits sum.splits option.splits)

lemma parsing_validates:
  assumes "parsing fs a0 = Inr a"
  shows "\<exists>g s. np_load_genome fs (genome a0) = Some g \<and> np_load_labels fs (labels a0) = Some s \<and>
           set (chrom_train a @ chrom_valid a) \<subseteq> dom g \<inter> dom s"
proof -
  have rw: "rewrite_chroms a0 = Inr a" using assms by (rule parsing_rewrites)
  from assms obtain g s where gs: "np_load_genome fs (genome a0) = Some g"
      "np_load_labels fs (labels a0) = Some s"
      "find (\<lambda>chr_id. \<not> (chr_id \<in> dom g \<and> chr_id \<in> dom s)) (chrom_train a @ chrom_valid a) = None"
    using rewrite_chroms_keeps [OF rw]
    by (auto simp: parsing_def rw split: if_splits option.splits)
  from gs(3) have "set (chrom_train a @ chrom_valid a) \<subseteq> dom g \<inter> dom s"
    unfolding find_None_iff by blast
  with gs(1,2) show ?thesis by blast
qed

subsection \<open>The example archives\<close>

lemma stem_example [simp]:
  "stem ''data/genome.npz'' = ''genome''"
  "stem ''data/W303.npz'' = ''W303''"
  "stem ''data/W303_Mmmyco.npz'' = ''W303_Mmmyco''"
  by (simp_all add: stem_def path_name_def)

lemma dom_example [simp]:
  "dom example_genome = {''chrI'', ''chrII'', ''chrIII'', ''chrIV''}"
  "dom example_signal = {''chrI'', ''chrII'', ''chrIII'', ''chrIV''}"
  "dom example_exclude = {''chrI'', ''chrII'', ''chrIII'', ''chrIV''}"
  "dom example_exclude_partial = {''chrI'', ''chrII'', ''chrIV''}"
  by (auto simp: example_genome_def example_signal_def example_exclude_def
        example_exclude_partial_def dom_map_of_conv_image_fst)


subsection \<open>Unknown chromosome identifiers\<close>

text \<open>
  Claim C3. Every requested training or validation chromosome identifier that is absent
  from the genome archive or from the labels archive makes the program fail with a
  configuration error during argument validation, before any data is loaded or any batch
  is produced.

  The identifiers requested from the archives are those of \<open>a\<close>, the command line after
  the rewriting of lines 231 to 237 (the identity unless the genome is named
  \<open>W303\<close> or \<open>W303_Mmmyco\<close>). When both files exist and load, and some requested
  identifier \<open>c\<close> is missing from one of the archives, \<open>parsing\<close> leaves through
  \<open>sys.exit\<close> with the message naming a missing identifier \<open>c'\<close> (the first one in
  training-then-validation order), and the run of the script ends there with an empty
  list of calls: nothing was merged, no generator was constructed, nothing was fitted.
\<close>

theorem parsing_rejects_absent_chromosome:
  assumes files: "is_file fs (genome a0)" "is_file fs (labels a0)"
    and rw: "rewrite_chroms a0 = Inr a"
    and g: "np_load_genome fs (genome a0) = Some g"
    and s: "np_load_labels fs (labels a0) = Some s"
    and c: "c \<in> set (chrom_train a @ chrom_valid a)" "c \<notin> dom g \<or> c \<notin> dom s"
  shows "\<exists>c'. c' \<in> set (chrom_train a @ chrom_valid a) \<and> (c' \<notin> dom g \<or> c' \<notin> dom s) \<and>
      parsing fs a0 = Inl (SystemExit (c' @ '' is not a valid chromosome id in ''
                                        @ genome a0 @ '' and '' @ labels a0)) \<and>
      main fs md a0 = ([], Inl (SystemExit (c' @ '' is not a valid chromosome id in ''
                                        @ genome a0 @ '' and '' @ labels a0)))"
proof -
  from c obtain c' where c': "find (\<lambda>chr_id. \<not> (chr_id \<in> dom g \<and> chr_id \<in> dom s))
      (chrom_train a @ chrom_valid a) = Some c'" "c' \<in> set (chrom_train a @ chrom_valid a)"
      "\<not> (c' \<in> dom g \<and> c' \<in> dom s)"
    using find_first [of c "chrom_train a @ chrom_valid a"
        "\<lambda>chr_id. \<not> (chr_id \<in> dom g \<and> chr_id \<in> dom s)"] by blast
  have p: "parsing fs a0 = Inl (SystemExit (c' @ '' is not a valid chromosome id in ''
                                        @ genome a0 @ '' and '' @ labels a0))"
    using files rw g s c'(1) rewrite_chroms_keeps [OF rw]
    by (simp add: parsing_def)
  show ?thesis
    using c'(2,3) p main_parsing_fails [OF p] by blast
qed


theorem parsing_rejects_absent_chromosome_witness:
  "parsing example_fs (example_args\<lparr>chrom_valid := [''chrIV'', ''chrX'']\<rparr>) =
     Inl (SystemExit ''chrX is not a valid chromosome id in data/genome.npz and data/signal.npz'') \<and>
   main example_fs example_modules (example_args\<lparr>chrom_valid := [''chrIV'', ''chrX'']\<rparr>) =
     ([], Inl (SystemExit ''chrX is not a valid chromosome id in data/genome.npz and data/signal.npz''))"
proof -
  let ?a = "example_args\<lparr>chrom_valid := [''chrIV'', ''chrX'']\<rparr>"
  have 1: "is_file example_fs (genome ?a)" "is_file example_fs (labels ?a)"
    by (simp_all add: example_fs_def example_args_def)
  have 2: "rewrite_chroms ?a = Inr ?a"
    by (simp add: rewrite_chroms_def example_args_def)
  have 3: "np_load_genome example_fs (genome ?a) = Some example_genome"
    "np_load_labels example_fs (labels ?a) = Some example_signal"
    by (simp_all add: example_fs_def example_args_def)
  have 4: "''chrX'' \<in> set (chrom_train ?a @ chrom_valid ?a)"
    "''chrX'' \<notin> dom example_genome \<or> ''chrX'' \<notin> dom example_signal"
    by (simp_all add: example_args_def)
  from parsing_rejects_absent_chromosome [OF 1 2 3 4, of example_modules]
  obtain c' where c': "c' \<in> set (chrom_train ?a @ chrom_valid ?a)"
      "c' \<notin> dom example_genome \<or> c' \<notin> dom example_signal"
    and r: "parsing example_fs ?a = Inl (SystemExit (c' @ '' is not a valid chromosome id in ''
                                        @ genome ?a @ '' and '' @ labels ?a))"
      "main example_fs example_modules ?a = ([], Inl (SystemExit (c' @ '' is not a valid chromosome id in ''
                                        @ genome ?a @ '' and '' @ labels ?a)))"
    by blast
  from c' have "c' = ''chrX''"
    unfolding dom_example by (simp add: example_args_def)
  with r show ?thesis
    by (simp add: example_args_def)
qed

subsection \<open>The exclusion archive must hold every requested chromosome\<close>

lemma parsing_exclusion_check:
  assumes files: "is_file fs (genome a0)" "is_file fs (labels a0)"
    and rw: "rewrite_chroms a0 = Inr a"
    and g: "np_load_genome fs (genome a0) = Some g"
    and s: "np_load_labels fs (labels a0) = Some s"
    and present: "set (chrom_train a @ chrom_valid a) \<subseteq> dom g \<inter> dom s"
    and ri: "remove_indices a0 = Some path"
    and r: "np_load_indices fs path = Some r"
  shows "if set (chrom_train a @ chrom_valid a) \<subseteq> dom r then parsing fs a0 = Inr a
     else (\<exists>c. c \<in> set (chrom_train a @ chrom_valid a) \<and> c \<notin> dom r \<and>
        parsing fs a0 = Inl (SystemExit (c @ '' is not a valid chromosome id in '' @ path)) \<and>
        main fs md a0 = ([], Inl (SystemExit (c @ '' is not a valid chromosome id in '' @ path))))"
proof -
  have none: "find (\<lambda>chr_id. \<not> (chr_id \<in> dom g \<and> chr_id \<in> dom s))
      (chrom_train a @ chrom_valid a) = None"
    using present by (auto simp: find_None_iff)
  show ?thesis
  proof (cases "set (chrom_train a @ chrom_valid a) \<subseteq> dom r")
    case True
    then have "find (\<lambda>chr_id. chr_id \<notin> dom r) (chrom_train a @ chrom_valid a) = None"
      by (auto simp: find_None_iff)
    then have ok: "parsing fs a0 = Inr a"
      using files rw g s none ri r rewrite_chroms_keeps [OF rw]
      by (simp add: parsing_def)
    show ?thesis unfolding if_P [OF True] by (fact ok)
  next
    case False
    then obtain c0 where "c0 \<in> set (chrom_train a @ chrom_valid a)" "c0 \<notin> dom r" by blast
    then obtain c where c: "find (\<lambda>chr_id. chr_id \<notin> dom r) (chrom_train a @ chrom_valid a) = Some c"
        "c \<in> set (chrom_train a @ chrom_valid a)" "c \<notin> dom r"
      using find_first [of c0 "chrom_train a @ chrom_valid a" "\<lambda>chr_id. chr_id \<notin> dom r"] by blast
    have p: "parsing fs a0 = Inl (SystemExit (c @ '' is not a valid chromosome id in '' @ path))"
      using files rw g s none ri r c(1) rewrite_chroms_keeps [OF rw]
      by (simp add: parsing_def)
    have bad: "\<exists>c. c \<in> set (chrom_train a @ chrom_valid a) \<and> c \<notin> dom r \<and>
        parsing fs a0 = Inl (SystemExit (c @ '' is not a valid chromosome id in '' @ path)) \<and>
        main fs md a0 = ([], Inl (SystemExit (c @ '' is not a valid chromosome id in '' @ path)))"
      using c(2,3) p main_parsing_fails [OF p] by blast
    show ?thesis unfolding if_not_P [OF False] by (fact bad)
  qed
qed

lemma parsing_exclusion_complete:
  assumes "remove_indices a0 = Some path" "np_load_indices fs path = Some r"
    and "parsing fs a0 = Inr a"
  shows "set (chrom_train a @ chrom_valid a) \<subseteq> dom r"
proof -
  have rw: "rewrite_chroms a0 = Inr a" using assms(3) by (rule parsing_rewrites)
  have "find (\<lambda>chr_id. chr_id \<notin> dom r) (chrom_train a @ chrom_valid a) = None"
    using assms rewrite_chroms_keeps [OF rw]
    by (auto simp: parsing_def rw split: if_splits option.splits)
  then show ?thesis unfolding find_None_iff by blast
qed

text \<open>
  Claim C10. If a \<open>remove_indices\<close> archive is supplied, the program exits with a fatal
  error during argument validation unless the archive contains an array for every
  training and every validation chromosome identifier.

  With \<open>--remove_indices path\<close> given and \<open>r\<close> the archive at that path: whenever
  \<open>parsing\<close> returns, every identifier of the returned command line is a key of \<open>r\<close>.
  Where the earlier checks pass (both files exist and load, and the archives hold every
  identifier), \<open>parsing\<close> returns exactly when \<open>r\<close> holds every identifier, and
  otherwise leaves through \<open>sys.exit\<close> naming an identifier missing from \<open>r\<close>, the
  run ending with no call made.
\<close>

theorem parsing_requires_exclusion_arrays:
  assumes ri: "remove_indices a0 = Some path"
    and r: "np_load_indices fs path = Some r"
  shows "(\<forall>a. parsing fs a0 = Inr a \<longrightarrow> set (chrom_train a @ chrom_valid a) \<subseteq> dom r) \<and>
     (\<forall>a g s. is_file fs (genome a0) \<and> is_file fs (labels a0) \<and> rewrite_chroms a0 = Inr a \<and>
        np_load_genome fs (genome a0) = Some g \<and> np_load_labels fs (labels a0) = Some s \<and>
        set (chrom_train a @ chrom_valid a) \<subseteq> dom g \<inter> dom s \<longrightarrow>
        (if set (chrom_train a @ chrom_valid a) \<subseteq> dom r then parsing fs a0 = Inr a
         else (\<exists>c. c \<in> set (chrom_train a @ chrom_valid a) \<and> c \<notin> dom r \<and>
            parsing fs a0 = Inl (SystemExit (c @ '' is not a valid chromosome id in '' @ path)) \<and>
            main fs md a0 = ([], Inl (SystemExit (c @ '' is not a valid chromosome id in '' @ path))))))"
  using parsing_exclusion_complete [OF ri r] parsing_exclusion_check [where md = md, OF _ _ _ _ _ _ ri r]
  by blast

theorem parsing_requires_exclusion_arrays_witness:
  "parsing example_fs (example_args\<lparr>remove_indices := Some ''data/partial.npz''\<rparr>) =
     Inl (SystemExit ''chrIII is not a valid chromosome id in data/partial.npz'') \<and>
   main example_fs example_modules (example_args\<lparr>remove_indices := Some ''data/partial.npz''\<rparr>) =
     ([], Inl (SystemExit ''chrIII is not a valid chromosome id in data/partial.npz'')) \<and>
   parsing example_fs example_args = Inr example_args"
proof -
  let ?a = "example_args\<lparr>remove_indices := Some ''data/partial.npz''\<rparr>"
  have 1: "is_file example_fs (genome ?a)" "is_file example_fs (labels ?a)"
    by (simp_all add: example_fs_def example_args_def)
  have 2: "rewrite_chroms ?a = Inr ?a"
    by (simp add: rewrite_chroms_def example_args_def)
  have 3: "np_load_genome example_fs (genome ?a) = Some example_genome"
    "np_load_labels example_fs (labels ?a) = Some example_signal"
    by (simp_all add: example_fs_def example_args_def)
  have 4: "set (chrom_train ?a @ chrom_valid ?a) \<subseteq> dom example_genome \<inter> dom example_signal"
    by (simp add: example_args_def)
  have 5: "remove_indices ?a = Some ''data/partial.npz''"
    "np_load_indices example_fs ''data/partial.npz'' = Some example_exclude_partial"
    by (simp_all add: example_fs_def)
  have 6: "\<not> set (chrom_train ?a @ chrom_valid ?a) \<subseteq> dom example_exclude_partial"
    by (simp add: example_args_def)
  from parsing_requires_exclusion_arrays [OF 5, of example_modules] 1 2 3 4
  have "if set (chrom_train ?a @ chrom_valid ?a) \<subseteq> dom example_exclude_partial
     then parsing example_fs ?a = Inr ?a
     else (\<exists>c. c \<in> set (chrom_train ?a @ chrom_valid ?a) \<and> c \<notin> dom example_exclude_partial \<and>
        parsing example_fs ?a = Inl (SystemExit (c @ '' is not a valid chromosome id in '' @ ''data/partial.npz'')) \<and>
        main example_fs example_modules ?a =
          ([], Inl (SystemExit (c @ '' is not a valid chromosome id in '' @ ''data/partial.npz''))))"
    by blast
  then obtain c where c: "c \<in> set (chrom_train ?a @ chrom_valid ?a)" "c \<notin> dom example_exclude_partial"
    and r: "parsing example_fs ?a = Inl (SystemExit (c @ '' is not a valid chromosome id in '' @ ''data/partial.npz''))"
      "main example_fs example_modules ?a =
         ([], Inl (SystemExit (c @ '' is not a valid chromosome id in '' @ ''data/partial.npz'')))"
    unfolding if_not_P [OF 6] by blast
  from c have "c = ''chrIII''"
    unfolding dom_example by (simp add: example_args_def)
  with r have bad: "parsing example_fs ?a =
       Inl (SystemExit ''chrIII is not a valid chromosome id in data/partial.npz'')"
    "main example_fs example_modules ?a =
       ([], Inl (SystemExit ''chrIII is not a valid chromosome id in data/partial.npz''))"
    by simp_all
  have ok1: "is_file example_fs (genome example_args)" "is_file example_fs (labels example_args)"
    by (simp_all add: example_fs_def example_args_def)
  have ok2: "rewrite_chroms example_args = Inr example_args"
    by (simp add: rewrite_chroms_def example_args_def)
  have ok3: "np_load_genome example_fs (genome example_args) = Some example_genome"
    "np_load_labels example_fs (labels example_args) = Some example_signal"
    by (simp_all add: example_fs_def example_args_def)
  have ok4: "set (chrom_train example_args @ chrom_valid example_args)
      \<subseteq> dom example_genome \<inter> dom example_signal"
    by (simp add: example_args_def)
  have ok5: "remove_indices example_args = Some ''data/exclude.npz''"
    "np_load_indices example_fs ''data/exclude.npz'' = Some example_exclude"
    by (simp_all add: example_fs_def example_args_def)
  have ok6: "set (chrom_train example_args @ chrom_valid example_args) \<subseteq> dom example_exclude"
    by (simp add: example_args_def)
  from parsing_requires_exclusion_arrays [OF ok5, of example_modules] ok1 ok2 ok3 ok4
  have "if set (chrom_train example_args @ chrom_valid example_args) \<subseteq> dom example_exclude
     then parsing example_fs example_args = Inr example_args
     else (\<exists>c. c \<in> set (chrom_train example_args @ chrom_valid example_args) \<and>
        c \<notin> dom example_exclude \<and>
        parsing example_fs example_args =
          Inl (SystemExit (c @ '' is not a valid chromosome id in '' @ ''data/exclude.npz'')) \<and>
        main example_fs example_modules example_args =
          ([], Inl (SystemExit (c @ '' is not a valid chromosome id in '' @ ''data/exclude.npz''))))"
    by blast
  then have good: "parsing example_fs example_args = Inr example_args"
    unfolding if_P [OF ok6] .
  from bad good show ?thesis by simp
qed

section \<open>Properties of the main block\<close>

subsection \<open>Unknown architecture\<close>

lemma model_dict_None:
  "model_dict n = None \<longleftrightarrow> n \<notin> {''mnase_Etienne'', ''bassenji_Etienne''}"
  by (auto simp: model_dict_def)

lemma main_unknown_architecture:
  assumes "parsing fs a0 = Inr a" "model_dict (architecture a) = None"
  shows "main fs md a0 =
     (WriteExperimentInfo (output_dir a) # (case seed a of None \<Rightarrow> [] | Some sd \<Rightarrow> [SetSeed sd]),
      Inl (KeyError (architecture a)))"
  using assms
  by (simp add: main_def and_then_def local_def call_def split: option.splits)

text \<open>
  Claim C5. For every architecture name that is not a known model architecture, the
  program fails with a fatal error, before any batch is produced.

  The known architectures are the two keys of \<open>model_dict\<close>. With any other name the
  run ends in an error: the one of \<open>parsing\<close>, with no call made, or else the
  \<open>KeyError\<close> of the lookup \<open>model_dict[args.architecture]\<close>, when the only calls made
  are the writing of \<open>Experiment_info.txt\<close> and the seeding of TensorFlow. No
  chromosome has been merged, no window generator constructed and nothing fitted.
\<close>

theorem unknown_architecture_fails:
  assumes "architecture a0 \<notin> {''mnase_Etienne'', ''bassenji_Etienne''}"
  shows "(case parsing fs a0 of
            Inl e \<Rightarrow> main fs md a0 = ([], Inl e)
          | Inr a \<Rightarrow> main fs md a0 =
              (WriteExperimentInfo (output_dir a)
                 # (case seed a of None \<Rightarrow> [] | Some sd \<Rightarrow> [SetSeed sd]),
               Inl (KeyError (architecture a0)))) \<and>
         (\<exists>e. snd (main fs md a0) = Inl e) \<and>
         (\<forall>chroms file. MergeChroms chroms file \<notin> set (fst (main fs md a0))) \<and>
         (\<forall>name kw. Construct name kw \<notin> set (fst (main fs md a0))) \<and>
         Fit \<notin> set (fst (main fs md a0))"
proof (cases "parsing fs a0")
  case (Inl e)
  then show ?thesis using main_parsing_fails [OF Inl, of md] by simp
next
  case (Inr a)
  have arch: "architecture a = architecture a0"
    using rewrite_chroms_keeps(4) [OF parsing_rewrites [OF Inr]] .
  then have "model_dict (architecture a) = None"
    using assms by (simp add: model_dict_None)
  from main_unknown_architecture [OF Inr this, of md] show ?thesis
    using Inr arch by (auto split: option.splits)
qed

lemma parsing_example: "parsing example_fs example_args = Inr example_args"
  by (simp add: parsing_def example_fs_def example_args_def rewrite_chroms_def find_None_iff)

theorem unknown_architecture_fails_witness:
  "main example_fs example_modules (example_args\<lparr>architecture := ''resnet''\<rparr>) =
     ([WriteExperimentInfo ''out'', SetSeed 7], Inl (KeyError ''resnet''))"
proof -
  let ?a = "example_args\<lparr>architecture := ''resnet''\<rparr>"
  have 1: "architecture ?a \<notin> {''mnase_Etienne'', ''bassenji_Etienne''}" by simp
  have 2: "parsing example_fs ?a = Inr ?a"
    by (simp add: parsing_def example_fs_def example_args_def rewrite_chroms_def find_None_iff)
  from unknown_architecture_fails [OF 1, of example_fs example_modules]
  show ?thesis unfolding 2 by (simp add: example_args_def)
qed

subsection \<open>Exclusion indices in merged coordinates\<close>

lemma offset_of_chromosome_0: "offset_of_chromosome lens 0 = 0"
  by (simp add: offset_of_chromosome_def)

lemma offset_of_chromosome_Suc:
  "offset_of_chromosome (l # lens) (Suc i) = int l + 1 + offset_of_chromosome lens i"
  by (simp add: offset_of_chromosome_def)

lemma offset_of_chromosome_nonneg: "0 \<le> offset_of_chromosome lens i"
  by (simp add: offset_of_chromosome_def)

lemma dtype_min_nonpos: "dtype_min d \<le> 0"
  by (simp add: dtype_min_def)

lemma mod_minus_self: "((a::int) mod m - a) mod m = 0"
proof -
  have "(a mod m - a) mod m = (a - a) mod m" by (rule mod_diff_left_eq)
  then show ?thesis by simp
qed

lemma wrap_congruent: "(wrap d v - v) mod 2 ^ dt_bits d = 0"
proof (cases "dt_signed d")
  case True
  have "wrap d v - v = (v + 2 ^ (dt_bits d - 1)) mod 2 ^ dt_bits d - (v + 2 ^ (dt_bits d - 1))"
    using True by (simp add: wrap_def)
  then show ?thesis by (simp only: mod_minus_self)
next
  case False
  then have "wrap d v - v = v mod 2 ^ dt_bits d - v" by (simp add: wrap_def)
  then show ?thesis by (simp only: mod_minus_self)
qed

lemma half_double:
  assumes "0 < b"
  shows "(2::int) ^ (b - 1) + 2 ^ (b - 1) = 2 ^ b"
proof -
  from assms obtain k where "b = Suc k" by (cases b) auto
  then show ?thesis by simp
qed

lemma wrap_range:
  assumes "0 < dt_bits d"
  shows "dtype_min d \<le> wrap d v \<and> wrap d v \<le> dtype_max d"
proof (cases "dt_signed d")
  case True
  have "0 \<le> (v + 2 ^ (dt_bits d - 1)) mod 2 ^ dt_bits d"
    "(v + 2 ^ (dt_bits d - 1)) mod 2 ^ dt_bits d < (2::int) ^ dt_bits d"
    by simp_all
  then show ?thesis
    using True half_double [OF assms] by (simp add: wrap_def dtype_min_def dtype_max_def)
next
  case False
  have "0 \<le> v mod 2 ^ dt_bits d" "v mod 2 ^ dt_bits d < (2::int) ^ dt_bits d"
    by simp_all
  then show ?thesis using False by (simp add: wrap_def dtype_min_def dtype_max_def)
qed

lemma wrap_in_range:
  assumes "0 < dt_bits d" "dtype_min d \<le> v" "v \<le> dtype_max d"
  shows "wrap d v = v"
proof (cases "dt_signed d")
  case True
  have "0 \<le> v + 2 ^ (dt_bits d - 1)" "v + 2 ^ (dt_bits d - 1) < (2::int) ^ dt_bits d"
    using True assms(2,3) half_double [OF assms(1)]
    by (simp_all add: dtype_min_def dtype_max_def)
  then have "(v + 2 ^ (dt_bits d - 1)) mod 2 ^ dt_bits d = v + 2 ^ (dt_bits d - 1)"
    by simp
  then show ?thesis using True by (simp add: wrap_def)
next
  case False
  have "0 \<le> v" "v < (2::int) ^ dt_bits d"
    using False assms(2,3) by (simp_all add: dtype_min_def dtype_max_def)
  then show ?thesis using False by (simp add: wrap_def)
qed

lemma remove_indices_loop_offsets:
  "map f chroms = map Some idx \<Longrightarrow> map s chroms = map Some labs \<Longrightarrow> 0 \<le> total_len \<Longrightarrow>
   \<forall>i<length chroms. total_len + offset_of_chromosome (map length labs) i \<le> dtype_max d \<Longrightarrow>
   remove_indices_loop d f s chroms arrays total_len =
     Inr (arrays @ map (\<lambda>i. map (\<lambda>x. wrap d (x + (total_len
                                  + offset_of_chromosome (map length labs) i))) (idx ! i))
                       [0..<length idx])"
proof (induction chroms arbitrary: idx labs arrays total_len)
  case Nil
  then show ?case by simp
next
  case (Cons k ks)
  from Cons.prems obtain fk idx' where idx: "idx = fk # idx'" "f k = Some fk" "map f ks = map Some idx'"
    by (cases idx) auto
  from Cons.prems obtain sk labs' where labs: "labs = sk # labs'" "s k = Some sk" "map s ks = map Some labs'"
    by (cases labs) auto
  have fit0: "total_len \<le> dtype_max d"
    using Cons.prems(4) offset_of_chromosome_0 [of "map length labs"] by fastforce
  have add: "add_scalar d fk total_len = Inr (map (\<lambda>x. wrap d (x + total_len)) fk)"
    using fit0 Cons.prems(3) dtype_min_nonpos [of d] by (simp add: add_scalar_def)
  have step: "remove_indices_loop d f s (k # ks) arrays total_len =
      remove_indices_loop d f s ks (arrays @ [map (\<lambda>x. wrap d (x + total_len)) fk])
        (total_len + (int (length sk) + 1))"
    using idx(2) labs(2) add by simp
  have nonneg: "0 \<le> total_len + (int (length sk) + 1)" using Cons.prems(3) by simp
  have fit: "\<forall>i<length ks. total_len + (int (length sk) + 1)
      + offset_of_chromosome (map length labs') i \<le> dtype_max d"
  proof (intro allI impI)
    fix i assume "i < length ks"
    then have "Suc i < length (k # ks)" by simp
    with Cons.prems(4) have "total_len + offset_of_chromosome (map length labs) (Suc i) \<le> dtype_max d"
      by blast
    then show "total_len + (int (length sk) + 1) + offset_of_chromosome (map length labs') i
        \<le> dtype_max d"
      by (simp add: labs(1) offset_of_chromosome_Suc add.assoc)
  qed
  have shift: "map (\<lambda>i. map (\<lambda>x. wrap d (x + (total_len + offset_of_chromosome (map length labs) i)))
                         (idx ! i)) [0..<length idx]
      = map (\<lambda>x. wrap d (x + total_len)) fk
        # map (\<lambda>i. map (\<lambda>x. wrap d (x + (total_len + (int (length sk) + 1)
                                         + offset_of_chromosome (map length labs') i))) (idx' ! i))
            [0..<length idx']"
    unfolding idx(1) labs(1)
    by (simp add: map_upt_Suc offset_of_chromosome_0 offset_of_chromosome_Suc add.assoc
             del: upt_Suc)
  show ?case
    unfolding step Cons.IH [OF idx(3) labs(3) nonneg fit] shift by simp
qed

lemma remove_indices_merged_offsets:
  assumes "map f chroms = map Some idx" and "map s chroms = map Some labs" and "chroms \<noteq> []"
    and "\<forall>i<length chroms. offset_of_chromosome (map length labs) i \<le> dtype_max d"
  shows "remove_indices_merged d f s chroms = Inr (merged_indices_in d idx (map length labs))"
proof -
  have "idx \<noteq> []" using assms(1,3) by auto
  moreover have "\<forall>i<length chroms. 0 + offset_of_chromosome (map length labs) i \<le> dtype_max d"
    using assms(4) by simp
  ultimately show ?thesis
    unfolding remove_indices_merged_def merged_indices_in_def
      remove_indices_loop_offsets [OF assms(1,2) order_refl, of d "[]", OF \<open>\<forall>i<length chroms. 0 + offset_of_chromosome (map length labs) i \<le> dtype_max d\<close>]
    by (simp add: np_concatenate_def)
qed

lemma merged_indices_exact:
  assumes "0 < dt_bits d"
    and "\<forall>i<length idx. \<forall>x\<in>set (idx ! i).
           dtype_min d \<le> x + offset_of_chromosome lens i \<and>
           x + offset_of_chromosome lens i \<le> dtype_max d"
  shows "merged_indices_in d idx lens = merged_indices idx lens"
proof -
  have "map (\<lambda>x. wrap d (x + offset_of_chromosome lens i)) (idx ! i)
      = map (\<lambda>x. x + offset_of_chromosome lens i) (idx ! i)" if "i < length idx" for i
    using assms that by (intro map_cong refl wrap_in_range) auto
  then have eq: "map (\<lambda>i. map (\<lambda>x. wrap d (x + offset_of_chromosome lens i)) (idx ! i))
        [0..<length idx]
      = map (\<lambda>i. map (\<lambda>x. x + offset_of_chromosome lens i) (idx ! i)) [0..<length idx]"
    by (intro map_cong refl) simp
  show ?thesis unfolding merged_indices_in_def merged_indices_def eq ..
qed

lemma dtype_example [simp]:
  "dtype_min int64 = - 9223372036854775808" "dtype_max int64 = 9223372036854775807"
  "dtype_min uint8 = 0" "dtype_max uint8 = 255" "0 < dt_bits int64" "0 < dt_bits uint8"
  by (simp_all add: dtype_min_def dtype_max_def int64_def uint8_def)

lemma all_less_Suc: "(\<forall>i<Suc n. P i) \<longleftrightarrow> P n \<and> (\<forall>i<n. P i)"
  by (auto simp: less_Suc_eq)

lemma load_remove_indices_example:
  "load_remove_indices example_fs example_args = Inr (Some [0, 2, 5, 7, 8], Some [0])"
proof -
  have fs: "remove_indices example_args = Some ''data/exclude.npz''"
    "np_load_indices example_fs ''data/exclude.npz'' = Some example_exclude"
    "indices_dtype example_fs ''data/exclude.npz'' = int64"
    "np_load_labels example_fs (labels example_args) = Some example_signal"
    by (simp_all add: example_args_def example_fs_def)
  have maps: "map example_exclude [''chrI'', ''chrII'', ''chrIII''] = map Some [[0, 2], [1], [0, 1]]"
    "map example_signal [''chrI'', ''chrII'', ''chrIII''] = map Some [[1, 0, 2], [1, 3], [0, 3]]"
    "map example_exclude [''chrIV''] = map Some [[0]]"
    "map example_signal [''chrIV''] = map Some [[5]]"
    by (simp_all add: example_exclude_def example_signal_def)
  have fit: "\<forall>i<length [''chrI'', ''chrII'', ''chrIII''].
      offset_of_chromosome (map length [[1, 0, 2], [1, 3], [0 :: real, 3]]) i \<le> dtype_max int64"
    "\<forall>i<length [''chrIV'']. offset_of_chromosome (map length [[5 :: real]]) i \<le> dtype_max int64"
    by (simp_all add: all_less_Suc offset_of_chromosome_def)
  have exact: "merged_indices_in int64 [[0, 2], [1], [0, 1]] (map length [[1, 0, 2], [1, 3], [0 :: real, 3]])
      = merged_indices [[0, 2], [1], [0, 1]] (map length [[1, 0, 2], [1, 3], [0 :: real, 3]])"
    "merged_indices_in int64 [[0]] (map length [[5 :: real]])
      = merged_indices [[0]] (map length [[5 :: real]])"
    by (rule merged_indices_exact; simp add: all_less_Suc offset_of_chromosome_def)+
  have val: "merged_indices [[0, 2], [1], [0, 1]] (map length [[1, 0, 2], [1, 3], [0 :: real, 3]])
      = [0, 2, 5, 7, 8]"
    "merged_indices [[0]] (map length [[5 :: real]]) = [0]"
    by (simp_all add: merged_indices_def offset_of_chromosome_def upt_rec)
  have ne: "[''chrI'', ''chrII'', ''chrIII''] \<noteq> []" "[''chrIV''] \<noteq> []" by simp_all
  note train = remove_indices_merged_offsets [OF maps(1,2) ne(1) fit(1), unfolded exact val]
  note valid = remove_indices_merged_offsets [OF maps(3,4) ne(2) fit(2), unfolded exact val]
  have chroms: "chrom_train example_args = [''chrI'', ''chrII'', ''chrIII'']"
    "chrom_valid example_args = [''chrIV'']"
    by (simp_all add: example_args_def)
  from train valid
  have "remove_indices_merged int64 example_exclude example_signal (chrom_train example_args)
      = Inr [0, 2, 5, 7, 8]"
    "remove_indices_merged int64 example_exclude example_signal (chrom_valid example_args)
      = Inr [0]"
    by (simp_all only: chroms)
  then show ?thesis
    by (simp add: load_remove_indices_def fs)
qed

lemma remove_indices_merged_exact:
  assumes "map f chroms = map Some idx" and "map s chroms = map Some labs" and "chroms \<noteq> []"
    and "indices_fit d idx (map length labs)"
  shows "remove_indices_merged d f s chroms = Inr (merged_indices idx (map length labs))"
proof -
  have len: "length chroms = length idx"
    using assms(1) by (metis length_map)
  have bits: "0 < dt_bits d" using assms(4) by (simp add: indices_fit_def)
  have off: "\<forall>i<length chroms. offset_of_chromosome (map length labs) i \<le> dtype_max d"
    using assms(4) by (simp add: indices_fit_def list_all_iff len)
  have sums: "\<forall>i<length idx. \<forall>x\<in>set (idx ! i).
      dtype_min d \<le> x + offset_of_chromosome (map length labs) i \<and>
      x + offset_of_chromosome (map length labs) i \<le> dtype_max d"
    using assms(4) by (simp add: indices_fit_def list_all_iff)
  show ?thesis
    unfolding remove_indices_merged_offsets [OF assms(1,2,3) off]
      merged_indices_exact [OF bits sums] ..
qed

lemma stem_long: "stem ''data/long.npz'' = ''long''"
  by (simp add: stem_def path_name_def)

lemma long_args_fields:
  "genome long_args = ''data/long.npz''" "labels long_args = ''data/long_signal.npz''"
  "chrom_train long_args = [''chrL'', ''chrS'']" "chrom_valid long_args = [''chrT'']"
  "remove_indices long_args = Some ''data/exclude_u8.npz''"
  by (simp_all add: long_args_def example_args_def)

lemma long_fs:
  "is_file example_fs ''data/long.npz''" "is_file example_fs ''data/long_signal.npz''"
  "np_load_genome example_fs ''data/long.npz'' = Some long_genome"
  "np_load_labels example_fs ''data/long_signal.npz'' = Some long_signal"
  "np_load_indices example_fs ''data/exclude_u8.npz'' = Some exclude_u8"
  "indices_dtype example_fs ''data/exclude_u8.npz'' = uint8"
  by (simp_all add: example_fs_def)

lemma long_arrays:
  "exclude_u8 ''chrL'' = Some [7, 199]" "exclude_u8 ''chrS'' = Some [99, 3]"
  "exclude_u8 ''chrT'' = Some [49]"
  "long_signal ''chrL'' = Some (replicate 200 1)" "long_signal ''chrS'' = Some (replicate 100 2)"
  "long_signal ''chrT'' = Some (replicate 50 3)"
  "long_genome ''chrL'' = Some (replicate 200 [1, 0, 0, 0])"
  "long_genome ''chrS'' = Some (replicate 100 [0, 1, 0, 0])"
  "long_genome ''chrT'' = Some (replicate 50 [0, 0, 1, 0])"
  by (simp_all add: exclude_u8_def long_signal_def long_genome_def)

lemma parsing_long: "parsing example_fs long_args = Inr long_args"
proof -
  have rw: "rewrite_chroms long_args = Inr long_args"
    by (simp add: rewrite_chroms_def long_args_fields stem_long)
  have keys: "''chrL'' \<in> dom long_genome" "''chrS'' \<in> dom long_genome" "''chrT'' \<in> dom long_genome"
    "''chrL'' \<in> dom long_signal" "''chrS'' \<in> dom long_signal" "''chrT'' \<in> dom long_signal"
    "''chrL'' \<in> dom exclude_u8" "''chrS'' \<in> dom exclude_u8" "''chrT'' \<in> dom exclude_u8"
    by (simp_all add: domIff long_arrays)
  show ?thesis
    by (simp add: parsing_def rw long_args_fields long_fs keys find_None_iff)
qed

text \<open>
  Claim C1, as it is worded, fails. The claim: for every ordered list of chromosome
  identifiers and every exclusion archive, the program remaps each chromosome's local
  exclusion indices to merged coordinates by adding the offset of chromosome \<open>i\<close>, equal
  to the sum of the label-array lengths of chromosomes \<open>0..i-1\<close> plus \<open>i\<close> separator
  slots.

  Line 317 computes \<open>f[k] + total_len\<close> in the integer type of the array \<open>f[k]\<close>.
  With an exclusion archive of type \<open>uint8\<close> and training chromosomes \<open>chrL\<close> (200
  labels, indices 7 and 199) and \<open>chrS\<close> (100 labels, indices 99 and 3), \<open>parsing\<close>
  accepts the command line, the offset of \<open>chrS\<close> is 201, and the index 99 of \<open>chrS\<close>
  becomes 44, which is 300 modulo 256, where the claim has 300.
\<close>

theorem uint8_indices_wrap_counterexample:
  "parsing example_fs long_args = Inr long_args \<and>
   remove_indices long_args = Some ''data/exclude_u8.npz'' \<and>
   indices_dtype example_fs ''data/exclude_u8.npz'' = uint8 \<and>
   chrom_train long_args = [''chrL'', ''chrS''] \<and>
   exclude_u8 ''chrL'' = Some [7, 199] \<and> exclude_u8 ''chrS'' = Some [99, 3] \<and>
   map_option length (long_signal ''chrL'') = Some 200 \<and>
   map_option length (long_signal ''chrS'') = Some 100 \<and>
   offset_of_chromosome [200, 100] 1 = 201 \<and>
   load_remove_indices example_fs long_args = Inr (Some [7, 199, 44, 204], Some [49]) \<and>
   merged_indices [[7, 199], [99, 3]] [200, 100] = [7, 199, 300, 204] \<and>
   [7, 199, 44, 204] \<noteq> merged_indices [[7, 199], [99, 3]] [200, 100]"
proof -
  have off: "offset_of_chromosome [200, 100] 1 = 201"
    by (simp add: offset_of_chromosome_def)
  have train: "remove_indices_merged uint8 exclude_u8 long_signal [''chrL'', ''chrS'']
      = Inr [7, 199, 44, 204]"
    by (simp add: remove_indices_merged_def long_arrays add_scalar_def wrap_def uint8_def
          dtype_min_def dtype_max_def np_concatenate_def)
  have valid: "remove_indices_merged uint8 exclude_u8 long_signal [''chrT''] = Inr [49]"
    by (simp add: remove_indices_merged_def long_arrays add_scalar_def wrap_def uint8_def
          dtype_min_def dtype_max_def np_concatenate_def)
  have run: "load_remove_indices example_fs long_args = Inr (Some [7, 199, 44, 204], Some [49])"
    by (simp add: load_remove_indices_def long_args_fields long_fs train valid)
  have claim: "merged_indices [[7, 199], [99, 3]] [200, 100] = [7, 199, 300, 204]"
    by (simp add: merged_indices_def offset_of_chromosome_def upt_rec)
  show ?thesis
    using long_arrays off run claim long_args_fields long_fs parsing_long by simp
qed

text \<open>
  Claim C1, amended. For every ordered list of chromosome identifiers and every
  exclusion archive whose integer type holds every offset and every moved index, the
  program remaps each chromosome's local exclusion indices to merged coordinates by
  adding the offset of chromosome \<open>i\<close>, equal to the sum of the label-array lengths of
  chromosomes \<open>0..i-1\<close> plus \<open>i\<close> separator slots.

  With an exclusion archive \<open>f\<close> and the labels archive \<open>s\<close> holding an array for each
  identifier of the two (non-empty) lists, and \<open>indices_fit\<close> for the integer type of
  \<open>f\<close>, the script computes for the training list and for the validation list the
  concatenation, in list order, of each chromosome's indices moved by
  \<open>offset_of_chromosome\<close>: the lengths of the label arrays of the chromosomes before it,
  plus one for each of them.
\<close>

theorem exclusion_indices_remapped_by_offset:
  assumes "remove_indices a = Some path"
    and "np_load_indices fs path = Some f"
    and "np_load_labels fs (labels a) = Some s"
    and "map f (chrom_train a) = map Some idx_train"
    and "map s (chrom_train a) = map Some labs_train"
    and "map f (chrom_valid a) = map Some idx_valid"
    and "map s (chrom_valid a) = map Some labs_valid"
    and "chrom_train a \<noteq> []" and "chrom_valid a \<noteq> []"
    and "indices_fit (indices_dtype fs path) idx_train (map length labs_train)"
    and "indices_fit (indices_dtype fs path) idx_valid (map length labs_valid)"
  shows "load_remove_indices fs a =
     Inr (Some (merged_indices idx_train (map length labs_train)),
          Some (merged_indices idx_valid (map length labs_valid)))"
  using assms(1-3)
    remove_indices_merged_exact [OF assms(4,5,8,10)]
    remove_indices_merged_exact [OF assms(6,7,9,11)]
  by (simp add: load_remove_indices_def)

theorem exclusion_indices_remapped_by_offset_witness:
  "indices_dtype example_fs ''data/exclude.npz'' = int64 \<and>
   indices_fit int64 [[0, 2], [1], [0, 1]] [3, 2, 2] \<and> indices_fit int64 [[0]] [1] \<and>
   offset_of_chromosome [3, 2, 2] 0 = 0 \<and> offset_of_chromosome [3, 2, 2] 1 = 4 \<and>
   offset_of_chromosome [3, 2, 2] 2 = 7 \<and>
   load_remove_indices example_fs example_args = Inr (Some [0, 2, 5, 7, 8], Some [0])"
proof -
  have 1: "remove_indices example_args = Some ''data/exclude.npz''"
    "np_load_indices example_fs ''data/exclude.npz'' = Some example_exclude"
    "np_load_labels example_fs (labels example_args) = Some example_signal"
    by (simp_all add: example_args_def example_fs_def)
  have 2: "map example_exclude (chrom_train example_args) = map Some [[0, 2], [1], [0, 1]]"
    "map example_signal (chrom_train example_args) = map Some [[1, 0, 2], [1, 3], [0, 3]]"
    "map example_exclude (chrom_valid example_args) = map Some [[0]]"
    "map example_signal (chrom_valid example_args) = map Some [[5]]"
    by (simp_all add: example_args_def example_exclude_def example_signal_def)
  have 3: "chrom_train example_args \<noteq> []" "chrom_valid example_args \<noteq> []"
    by (simp_all add: example_args_def)
  have d: "indices_dtype example_fs ''data/exclude.npz'' = int64"
    by (simp add: example_fs_def)
  have fit: "indices_fit int64 [[0, 2], [1], [0, 1]] [3, 2, 2]" "indices_fit int64 [[0]] [1]"
    by (simp_all add: indices_fit_def offset_of_chromosome_def upt_rec)
  have lens: "map length [[1, 0, 2], [1, 3], [0 :: real, 3]] = [3, 2, 2]"
    "map length [[5 :: real]] = [1]"
    by simp_all
  have 4: "indices_fit (indices_dtype example_fs ''data/exclude.npz'') [[0, 2], [1], [0, 1]]
      (map length [[1, 0, 2], [1, 3], [0 :: real, 3]])"
    "indices_fit (indices_dtype example_fs ''data/exclude.npz'') [[0]] (map length [[5 :: real]])"
    unfolding d lens by (rule fit)+
  have 5: "merged_indices [[0, 2], [1], [0, 1]] (map length [[1, 0, 2], [1, 3], [0 :: real, 3]])
      = [0, 2, 5, 7, 8]"
    "merged_indices [[0]] (map length [[5 :: real]]) = [0]"
    by (simp_all add: merged_indices_def offset_of_chromosome_def upt_rec)
  have 6: "offset_of_chromosome [3, 2, 2] 0 = 0 \<and> offset_of_chromosome [3, 2, 2] 1 = 4 \<and>
   offset_of_chromosome [3, 2, 2] 2 = 7"
    by (simp add: offset_of_chromosome_def numeral_2_eq_2)
  from exclusion_indices_remapped_by_offset [OF 1 2 3 4]
  have "load_remove_indices example_fs example_args = Inr (Some [0, 2, 5, 7, 8], Some [0])"
    unfolding 5 .
  then show ?thesis using d fit 6 by blast
qed

subsection \<open>The two generator constructions\<close>

lemma main_valid_generator:
  assumes "Construct Valid kw \<in> set (fst (main fs md a0))"
  shows "\<exists>a x y rt rv. parsing fs a0 = Inr a \<and>
           merge_chroms_genome md (chrom_valid a) (genome a) = Inr x \<and>
           merge_chroms_labels md (chrom_valid a) (labels a) = Inr y \<and>
           load_remove_indices fs a = Inr (rt, rv) \<and>
           kw = generator_valid a x y rv"
  using assms
  by (auto simp: main_def and_then_def local_def call_def
           split: sum.splits option.splits prod.splits)

lemma main_train_generator:
  assumes "Construct Train kw \<in> set (fst (main fs md a0))"
  shows "\<exists>a x y rt rv. parsing fs a0 = Inr a \<and>
           merge_chroms_genome md (chrom_train a) (genome a) = Inr x \<and>
           merge_chroms_labels md (chrom_train a) (labels a) = Inr y \<and>
           load_remove_indices fs a = Inr (rt, rv) \<and>
           kw = generator_train a x y rt"
  using assms
  by (auto simp: main_def and_then_def local_def call_def
           split: sum.splits option.splits prod.splits)

lemma rewrite_chroms_seed:
  "rewrite_chroms (a0\<lparr>seed := sd, same_samples := ss\<rparr>) =
     (case rewrite_chroms a0 of Inl e \<Rightarrow> Inl e | Inr a \<Rightarrow> Inr (a\<lparr>seed := sd, same_samples := ss\<rparr>))"
  by (simp add: rewrite_chroms_def Let_def split: sum.splits)

lemma parsing_seed:
  "parsing fs (a0\<lparr>seed := sd, same_samples := ss\<rparr>) =
     (case parsing fs a0 of Inl e \<Rightarrow> Inl e | Inr a \<Rightarrow> Inr (a\<lparr>seed := sd, same_samples := ss\<rparr>))"
  by (simp add: parsing_def rewrite_chroms_seed split: sum.splits option.splits)

lemma load_remove_indices_seed:
  "load_remove_indices fs (a\<lparr>seed := sd, same_samples := ss\<rparr>) = load_remove_indices fs a"
  by (simp add: load_remove_indices_def split: option.splits sum.splits)

lemma generator_valid_seed:
  "generator_valid (a\<lparr>seed := sd, same_samples := ss\<rparr>) x y rv = generator_valid a x y rv"
  by (simp add: generator_valid_def)

text \<open>The run of the script on the example genome, and the same run with another seed.\<close>

lemma example_args_fields:
  "architecture example_args = ''mnase_Etienne''" "genome example_args = ''data/genome.npz''"
  "labels example_args = ''data/signal.npz''" "output_dir example_args = ''out''"
  "chrom_train example_args = [''chrI'', ''chrII'', ''chrIII'']"
  "chrom_valid example_args = [''chrIV'']" "winsize example_args = 2001"
  "seed example_args = Some 7" "distribute example_args = False"
  "balance example_args = Some ''global''" "n_classes example_args = 500"
  by (simp_all add: example_args_def)

lemma main_example:
  "main example_fs example_modules example_args =
     ([WriteExperimentInfo ''out'', SetSeed 7, BuildModel mnase_Etienne 2001 False,
       MergeChroms [''chrI'', ''chrII'', ''chrIII''] ''data/genome.npz'',
       MergeChroms [''chrIV''] ''data/genome.npz'',
       MergeChroms [''chrI'', ''chrII'', ''chrIII''] ''data/signal.npz'',
       MergeChroms [''chrIV''] ''data/signal.npz'',
       Construct Train (generator_train example_args
         ([''chrI'', ''chrII'', ''chrIII''], ''data/genome.npz'')
         ([''chrI'', ''chrII'', ''chrIII''], ''data/signal.npz'') (Some [0, 2, 5, 7, 8])),
       Construct Valid (generator_valid example_args
         ([''chrIV''], ''data/genome.npz'') ([''chrIV''], ''data/signal.npz'') (Some [0])),
       Fit, SaveModel], Inr ())"
  by (simp add: main_def parsing_example load_remove_indices_example example_args_fields
        and_then_def local_def call_def model_dict_def example_modules_def)

lemma main_example_reseeded:
  "main example_fs example_modules (example_args\<lparr>seed := Some 99, same_samples := True\<rparr>) =
     ([WriteExperimentInfo ''out'', SetSeed 99, BuildModel mnase_Etienne 2001 False,
       MergeChroms [''chrI'', ''chrII'', ''chrIII''] ''data/genome.npz'',
       MergeChroms [''chrIV''] ''data/genome.npz'',
       MergeChroms [''chrI'', ''chrII'', ''chrIII''] ''data/signal.npz'',
       MergeChroms [''chrIV''] ''data/signal.npz'',
       Construct Train (generator_train (example_args\<lparr>seed := Some 99, same_samples := True\<rparr>)
         ([''chrI'', ''chrII'', ''chrIII''], ''data/genome.npz'')
         ([''chrI'', ''chrII'', ''chrIII''], ''data/signal.npz'') (Some [0, 2, 5, 7, 8])),
       Construct Valid (generator_valid (example_args\<lparr>seed := Some 99, same_samples := True\<rparr>)
         ([''chrIV''], ''data/genome.npz'') ([''chrIV''], ''data/signal.npz'') (Some [0])),
       Fit, SaveModel], Inr ())"
  by (simp add: main_def parsing_seed parsing_example load_remove_indices_seed
        load_remove_indices_example example_args_fields
        and_then_def local_def call_def model_dict_def example_modules_def)

text \<open>
  Claim C2. For every run, the validation window generator is constructed with
  \<open>same_samples=True\<close> and seed 0, regardless of the \<open>--seed\<close> and
  \<open>--same_samples\<close> values given for training; hence two runs differing only in the
  training seed construct validation generators with identical sampling parameters.

  Whatever the files, the imported modules and the command line: a construction of the
  validation generator that a run makes has \<open>same_samples = True\<close> and \<open>seed = 0\<close>; and
  when the run is repeated with another \<open>--seed\<close> and \<open>--same_samples\<close>, the
  validation generator of the second run is constructed with the very same keyword
  arguments as that of the first.
\<close>

theorem validation_generator_fixed_sampling:
  "(\<forall>kw. Construct Valid kw \<in> set (fst (main fs md a0)) \<longrightarrow>
      kw_same_samples kw = True \<and> kw_seed kw = Some 0) \<and>
   (\<forall>kw kw' sd ss.
      Construct Valid kw \<in> set (fst (main fs md a0)) \<and>
      Construct Valid kw' \<in> set (fst (main fs md (a0\<lparr>seed := sd, same_samples := ss\<rparr>))) \<longrightarrow>
      kw' = kw)"
proof -
  have fixed: "kw_same_samples kw = True \<and> kw_seed kw = Some 0"
    if "Construct Valid kw \<in> set (fst (main fs md a0))" for kw
    using main_valid_generator [OF that] by (auto simp: generator_valid_def)
  have same: "kw' = kw"
    if h: "Construct Valid kw \<in> set (fst (main fs md a0)) \<and>
      Construct Valid kw' \<in> set (fst (main fs md (a0\<lparr>seed := sd, same_samples := ss\<rparr>)))"
    for kw kw' sd ss
  proof -
    from main_valid_generator [OF conjunct1 [OF h]] obtain a x y rt rv where
      1: "parsing fs a0 = Inr a"
        "merge_chroms_genome md (chrom_valid a) (genome a) = Inr x"
        "merge_chroms_labels md (chrom_valid a) (labels a) = Inr y"
        "load_remove_indices fs a = Inr (rt, rv)"
        "kw = generator_valid a x y rv"
      by blast
    from main_valid_generator [OF conjunct2 [OF h]] obtain b x' y' rt' rv' where
      2: "parsing fs (a0\<lparr>seed := sd, same_samples := ss\<rparr>) = Inr b"
        "merge_chroms_genome md (chrom_valid b) (genome b) = Inr x'"
        "merge_chroms_labels md (chrom_valid b) (labels b) = Inr y'"
        "load_remove_indices fs b = Inr (rt', rv')"
        "kw' = generator_valid b x' y' rv'"
      by blast
    have b: "b = a\<lparr>seed := sd, same_samples := ss\<rparr>"
      using 1(1) 2(1) by (simp add: parsing_seed)
    have "x' = x" "y' = y" "rv' = rv"
      using 1(2,3,4) 2(2,3,4) by (simp_all add: b load_remove_indices_seed)
    then show "kw' = kw"
      using 1(5) 2(5) by (simp add: b generator_valid_seed)
  qed
  show ?thesis using fixed same by blast
qed

theorem validation_generator_fixed_sampling_witness:
  "Construct Valid (generator_valid example_args ([''chrIV''], ''data/genome.npz'')
       ([''chrIV''], ''data/signal.npz'') (Some [0]))
     \<in> set (fst (main example_fs example_modules example_args)) \<and>
   kw_same_samples (generator_valid example_args ([''chrIV''], ''data/genome.npz'')
       ([''chrIV''], ''data/signal.npz'') (Some [0])) = True \<and>
   kw_seed (generator_valid example_args ([''chrIV''], ''data/genome.npz'')
       ([''chrIV''], ''data/signal.npz'') (Some [0])) = Some 0 \<and>
   seed example_args = Some 7 \<and>
   Construct Valid (generator_valid (example_args\<lparr>seed := Some 99, same_samples := True\<rparr>)
       ([''chrIV''], ''data/genome.npz'') ([''chrIV''], ''data/signal.npz'') (Some [0]))
     \<in> set (fst (main example_fs example_modules
                   (example_args\<lparr>seed := Some 99, same_samples := True\<rparr>))) \<and>
   generator_valid (example_args\<lparr>seed := Some 99, same_samples := True\<rparr>)
       ([''chrIV''], ''data/genome.npz'') ([''chrIV''], ''data/signal.npz'') (Some [0])
     = generator_valid example_args ([''chrIV''], ''data/genome.npz'')
       ([''chrIV''], ''data/signal.npz'') (Some [0])"
proof -
  let ?kw = "generator_valid example_args ([''chrIV''], ''data/genome.npz'')
       ([''chrIV''], ''data/signal.npz'') (Some [0])"
  let ?kw' = "generator_valid (example_args\<lparr>seed := Some 99, same_samples := True\<rparr>)
       ([''chrIV''], ''data/genome.npz'') ([''chrIV''], ''data/signal.npz'') (Some [0])"
  have 1: "Construct Valid ?kw \<in> set (fst (main example_fs example_modules example_args))"
    unfolding main_example by simp
  have 2: "Construct Valid ?kw' \<in> set (fst (main example_fs example_modules
      (example_args\<lparr>seed := Some 99, same_samples := True\<rparr>)))"
    unfolding main_example_reseeded by simp
  note inst = validation_generator_fixed_sampling [of example_fs example_modules example_args]
  from inst 1 have 3: "kw_same_samples ?kw = True \<and> kw_seed ?kw = Some 0" by blast
  from inst 1 2 have 4: "?kw' = ?kw" by blast
  show ?thesis using 1 2 3 4 by (simp add: example_args_fields)
qed

text \<open>
  Claim C9. For every run, the validation window generator is constructed without the
  \<open>balance\<close> and \<open>n_classes\<close> arguments, so validation sampling is always uniform
  (unweighted) even when \<open>--balance\<close> is set to "global" or "batch" for training.

  In every run the validation generator's call writes neither keyword, so the class
  balancer is not active for it, while the training generator's call passes
  \<open>--balance\<close> and \<open>--n_classes\<close> as given.
\<close>

theorem validation_generator_unbalanced:
  "(\<forall>kw. Construct Valid kw \<in> set (fst (main fs md a0)) \<longrightarrow>
      kw_balance kw = Omitted \<and> kw_n_classes kw = Omitted \<and> \<not> balancer_active (kw_balance kw)) \<and>
   (\<forall>kw. Construct Train kw \<in> set (fst (main fs md a0)) \<longrightarrow>
      kw_balance kw = Passed (balance a0) \<and> kw_n_classes kw = Passed (n_classes a0))"
proof -
  have valid: "kw_balance kw = Omitted \<and> kw_n_classes kw = Omitted \<and> \<not> balancer_active (kw_balance kw)"
    if "Construct Valid kw \<in> set (fst (main fs md a0))" for kw
    using main_valid_generator [OF that] by (auto simp: generator_valid_def balancer_active_def)
  have train: "kw_balance kw = Passed (balance a0) \<and> kw_n_classes kw = Passed (n_classes a0)"
    if "Construct Train kw \<in> set (fst (main fs md a0))" for kw
  proof -
    from main_train_generator [OF that] obtain a x y rt where
      a: "parsing fs a0 = Inr a" "kw = generator_train a x y rt" by blast
    have "balance a = balance a0" "n_classes a = n_classes a0"
      using parsing_rewrites [OF a(1)]
      by (auto simp: rewrite_chroms_def Let_def split: if_splits sum.splits)
    then show ?thesis
      using a(2) by (simp add: generator_train_def)
  qed
  show ?thesis using valid train by blast
qed

theorem validation_generator_unbalanced_witness:
  "balance example_args = Some ''global'' \<and>
   Construct Train (generator_train example_args
         ([''chrI'', ''chrII'', ''chrIII''], ''data/genome.npz'')
         ([''chrI'', ''chrII'', ''chrIII''], ''data/signal.npz'') (Some [0, 2, 5, 7, 8]))
     \<in> set (fst (main example_fs example_modules example_args)) \<and>
   kw_balance (generator_train example_args
         ([''chrI'', ''chrII'', ''chrIII''], ''data/genome.npz'')
         ([''chrI'', ''chrII'', ''chrIII''], ''data/signal.npz'') (Some [0, 2, 5, 7, 8]))
     = Passed (Some ''global'') \<and>
   Construct Valid (generator_valid example_args ([''chrIV''], ''data/genome.npz'')
       ([''chrIV''], ''data/signal.npz'') (Some [0]))
     \<in> set (fst (main example_fs example_modules example_args)) \<and>
   kw_balance (generator_valid example_args ([''chrIV''], ''data/genome.npz'')
       ([''chrIV''], ''data/signal.npz'') (Some [0])) = Omitted \<and>
   kw_n_classes (generator_valid example_args ([''chrIV''], ''data/genome.npz'')
       ([''chrIV''], ''data/signal.npz'') (Some [0])) = Omitted \<and>
   \<not> balancer_active (kw_balance (generator_valid example_args ([''chrIV''], ''data/genome.npz'')
       ([''chrIV''], ''data/signal.npz'') (Some [0])))"
proof -
  let ?kw = "generator_valid example_args ([''chrIV''], ''data/genome.npz'')
       ([''chrIV''], ''data/signal.npz'') (Some [0])"
  let ?tkw = "generator_train example_args
         ([''chrI'', ''chrII'', ''chrIII''], ''data/genome.npz'')
         ([''chrI'', ''chrII'', ''chrIII''], ''data/signal.npz'') (Some [0, 2, 5, 7, 8])"
  have 1: "Construct Valid ?kw \<in> set (fst (main example_fs example_modules example_args))"
    unfolding main_example by simp
  have 2: "Construct Train ?tkw \<in> set (fst (main example_fs example_modules example_args))"
    unfolding main_example by simp
  note inst = validation_generator_unbalanced [of example_fs example_modules example_args]
  from inst 1 have 3: "kw_balance ?kw = Omitted \<and> kw_n_classes ?kw = Omitted \<and>
      \<not> balancer_active (kw_balance ?kw)" by blast
  from inst 2 have 4: "kw_balance ?tkw = Passed (balance example_args)" by blast
  show ?thesis using 1 2 3 4 by (simp add: example_args_fields balancer_active_def)
qed

section \<open>The rewriting of chromosome identifiers\<close>

subsection \<open>Reading a plain numeral and printing it again\<close>

lemma digit_val_Some: "digit_val d \<noteq> None \<Longrightarrow> digit_val d = Some (of_char d - 48)"
  by (simp add: digit_val_def Let_def split: if_splits)

lemma digit_range: "digit_val d \<noteq> None \<Longrightarrow> 48 \<le> (of_char d :: nat) \<and> (of_char d :: nat) \<le> 57"
  by (simp add: digit_val_def Let_def split: if_splits)

lemma digit_not_special:
  assumes "digit_val d \<noteq> None"
  shows "d \<noteq> CHR ''_''" "d \<noteq> CHR ''-''" "d \<noteq> CHR ''+''" "\<not> py_isspace d"
  using digit_range [OF assms] by (auto simp: py_isspace_def)

lemma of_char_digit_char: "k < 10 \<Longrightarrow> (of_char (digit_char k) :: nat) = 48 + k"
proof -
  assume "k < 10"
  then have "k \<in> {0, 1, 2, 3, 4, 5, 6, 7, 8, 9}" by auto
  then show ?thesis by (auto simp: digit_char_def)
qed

lemma digit_char_of_digit:
  assumes "digit_val d \<noteq> None"
  shows "digit_char (of_char d - 48) = d"
proof -
  have "(of_char d :: nat) - 48 < 10" using digit_range [OF assms] by auto
  then have "(of_char (digit_char (of_char d - 48)) :: nat) = of_char d"
    using of_char_digit_char [of "of_char d - 48"] digit_range [OF assms] by simp
  then show ?thesis by simp
qed

lemma int_digits_value:
  "list_all (\<lambda>d. digit_val d \<noteq> None) ds \<Longrightarrow> int_digits acc ds = Some (digits_value acc ds)"
proof (induction ds arbitrary: acc)
  case Nil
  then show ?case by (simp add: digits_value_def)
next
  case (Cons d ds)
  then have d: "digit_val d \<noteq> None" and ds: "list_all (\<lambda>d. digit_val d \<noteq> None) ds" by auto
  show ?case
    using digit_not_special(1) [OF d] digit_val_Some [OF d] Cons.IH [OF ds]
    by (simp add: digits_value_def)
qed

lemma decimal_step: "0 < acc \<Longrightarrow> v < 10 \<Longrightarrow> decimal (10 * acc + v) = decimal acc @ [digit_char v]"
  by (subst decimal.simps) simp

lemma decimal_small: "v < 10 \<Longrightarrow> decimal v = [digit_char v]"
  by (subst decimal.simps) simp

lemma decimal_digits_value:
  "list_all (\<lambda>d. digit_val d \<noteq> None) ds \<Longrightarrow> 0 < acc \<Longrightarrow>
   decimal (digits_value acc ds) = decimal acc @ ds"
proof (induction ds arbitrary: acc)
  case Nil
  then show ?case by (simp add: digits_value_def)
next
  case (Cons d ds)
  then have d: "digit_val d \<noteq> None" and ds: "list_all (\<lambda>d. digit_val d \<noteq> None) ds" by auto
  have v: "(of_char d :: nat) - 48 < 10" using digit_range [OF d] by auto
  have "digits_value acc (d # ds) = digits_value (10 * acc + (of_char d - 48)) ds"
    by (simp add: digits_value_def)
  then show ?case
    using Cons.IH [OF ds, of "10 * acc + (of_char d - 48)"] Cons.prems(2)
      decimal_step [OF Cons.prems(2) v] digit_char_of_digit [OF d]
    by simp
qed

lemma strip_digits:
  assumes "c \<noteq> []" "list_all (\<lambda>d. digit_val d \<noteq> None) c"
  shows "strip c = c"
proof -
  from assms obtain d ds where c: "c = d # ds" by (cases c) auto
  have "\<not> py_isspace d" using assms(2) c digit_not_special(4) by auto
  then have 1: "dropWhile py_isspace c = c" by (simp add: c)
  have "rev c \<noteq> []" using assms(1) by simp
  then obtain e es where r: "rev c = e # es" by (cases "rev c") auto
  then have "e \<in> set c" by (metis list.set_intros(1) set_rev)
  then have "\<not> py_isspace e" using assms(2) digit_not_special(4) by (auto simp: list_all_iff)
  then have "dropWhile py_isspace (rev c) = rev c" by (simp add: r)
  with 1 show ?thesis by (simp add: strip_def)
qed

lemma py_int_digits:
  assumes "c \<noteq> []" "list_all (\<lambda>d. digit_val d \<noteq> None) c" "length c \<le> max_str_digits"
  shows "py_int c = Inr (int (digits_value 0 c))"
proof -
  from assms obtain d ds where c: "c = d # ds" by (cases c) auto
  have d: "digit_val d \<noteq> None" and ds: "list_all (\<lambda>d. digit_val d \<noteq> None) ds"
    using assms(2) c by auto
  have st: "strip c = c" by (rule strip_digits [OF assms(1,2)])
  have u: "int_unsigned c = Some (digits_value 0 c)"
    using digit_val_Some [OF d] int_digits_value [OF ds, of "of_char d - 48"]
    by (simp add: int_unsigned_def c digits_value_def)
  have "filter (\<lambda>d. digit_val d \<noteq> None) c = c"
    using assms(2) by (simp add: list_all_iff)
  then have lim: "\<not> max_str_digits < length (filter (\<lambda>d. digit_val d \<noteq> None) c)"
    using assms(3) by simp
  have r: "(case c of
              [] \<Rightarrow> None
            | x # xs \<Rightarrow>
                if x = CHR ''-'' then map_option (\<lambda>n. - int n) (int_unsigned xs)
                else if x = CHR ''+'' then map_option int (int_unsigned xs)
                else map_option int (int_unsigned c))
      = Some (int (digits_value 0 c))"
    using u digit_not_special(2,3) [OF d] by (simp add: c)
  show ?thesis
    unfolding py_int_def Let_def st r using lim by simp
qed

lemma plain_numeral_format:
  assumes "plain_numeral c"
  shows "py_int c = Inr (int (digits_value 0 c)) \<and> format_02d (int (digits_value 0 c)) = zero_padded c"
proof -
  from assms have ne: "c \<noteq> []" and dg: "list_all (\<lambda>d. digit_val d \<noteq> None) c"
    and ln: "length c \<le> max_str_digits" and lz: "length c \<le> 2 \<or> hd c \<noteq> CHR ''0''"
    by (auto simp: plain_numeral_def)
  from ne obtain d ds where c: "c = d # ds" by (cases c) auto
  have d: "digit_val d \<noteq> None" and ds: "list_all (\<lambda>d. digit_val d \<noteq> None) ds"
    using dg c by auto
  have v: "(of_char d :: nat) - 48 < 10" using digit_range [OF d] by auto
  have val: "digits_value 0 c = digits_value (of_char d - 48) ds"
    by (simp add: digits_value_def c)
  have "decimal (digits_value 0 c) = c \<or> (d = CHR ''0'' \<and> length ds \<le> 1)"
  proof (cases "d = CHR ''0''")
    case True
    then show ?thesis using lz c by auto
  next
    case False
    have "(of_char d :: nat) \<noteq> 48"
    proof
      assume "(of_char d :: nat) = 48"
      then have "(of_char d :: nat) = of_char CHR ''0''" by simp
      then show False using False by (simp only: of_char_eq_iff)
    qed
    then have pos: "0 < (of_char d :: nat) - 48" using digit_range [OF d] by auto
    show ?thesis
      using decimal_digits_value [OF ds pos] decimal_small [OF v] digit_char_of_digit [OF d] val c
      by simp
  qed
  then have "format_02d (int (digits_value 0 c)) = zero_padded c"
  proof
    assume "decimal (digits_value 0 c) = c"
    then show ?thesis by (simp add: format_02d_def zero_padded_def Let_def)
  next
    assume z: "d = CHR ''0'' \<and> length ds \<le> 1"
    show ?thesis
    proof (cases ds)
      case Nil
      then show ?thesis using z c
        by (simp add: format_02d_def zero_padded_def Let_def digits_value_def decimal_small digit_char_def)
    next
      case (Cons e es)
      then have es: "es = []" using z by simp
      have e: "digit_val e \<noteq> None" using ds Cons by simp
      have ev: "(of_char e :: nat) - 48 < 10" using digit_range [OF e] by auto
      show ?thesis using z c Cons es decimal_small [OF ev] digit_char_of_digit [OF e]
        by (simp add: format_02d_def zero_padded_def Let_def digits_value_def)
    qed
  qed
  then show ?thesis using py_int_digits [OF ne dg ln] by simp
qed

lemma w303_id_plain: "plain_numeral c \<Longrightarrow> w303_id c = Inr (''chr'' @ zero_padded c)"
  using plain_numeral_format [of c] by (simp add: w303_id_def)

lemma comprehension_Inr_iff: "comprehension f xs = Inr ys \<longleftrightarrow> map f xs = map Inr ys"
proof (induction xs arbitrary: ys)
  case Nil
  then show ?case by auto
next
  case (Cons x xs)
  show ?case
  proof (cases "f x")
    case (Inl e)
    then show ?thesis by (cases ys) auto
  next
    case (Inr y)
    then show ?thesis
      using Cons.IH by (cases ys; cases "comprehension f xs") auto
  qed
qed

lemma comprehension_total:
  "(\<And>x. x \<in> set xs \<Longrightarrow> f x = Inr (h x)) \<Longrightarrow> comprehension f xs = Inr (map h xs)"
  by (induction xs) auto

lemma w303_id_cases:
  "(\<exists>n. py_int c = Inr n \<and> w303_id c = Inr (''chr'' @ format_02d n)) \<or>
   (py_int c = Inl (ValueError c) \<and> w303_id c = Inl (ValueError c))"
  by (auto simp: w303_id_def py_int_def Let_def split: option.splits)

lemma comprehension_w303_Inr:
  "comprehension w303_id cs = Inr cs' \<Longrightarrow>
   list_all2 (\<lambda>c c'. \<exists>n. py_int c = Inr n \<and> c' = ''chr'' @ format_02d n) cs cs'"
proof (induction cs arbitrary: cs')
  case Nil
  then show ?case by simp
next
  case (Cons c cs)
  from w303_id_cases [of c] Cons.prems obtain n where
    n: "py_int c = Inr n" "w303_id c = Inr (''chr'' @ format_02d n)"
    by auto
  from Cons.prems n(2) obtain ys where
    ys: "comprehension w303_id cs = Inr ys" "cs' = (''chr'' @ format_02d n) # ys"
    by (cases "comprehension w303_id cs") auto
  show ?case
    unfolding ys(2) using n(1) Cons.IH [OF ys(1)] by simp
qed

lemma comprehension_w303_Inl:
  "c \<in> set cs \<Longrightarrow> py_int c = Inl e \<Longrightarrow>
   \<exists>c'. c' \<in> set cs \<and> comprehension w303_id cs = Inl (ValueError c')"
proof (induction cs)
  case Nil
  then show ?case by simp
next
  case (Cons d ds)
  from w303_id_cases [of d] show ?case
  proof
    assume "\<exists>n. py_int d = Inr n \<and> w303_id d = Inr (''chr'' @ format_02d n)"
    then obtain n where n: "py_int d = Inr n" "w303_id d = Inr (''chr'' @ format_02d n)"
      by blast
    with Cons.prems have "c \<in> set ds" by auto
    from Cons.IH [OF this Cons.prems(2)] obtain c' where
      c': "c' \<in> set ds" "comprehension w303_id ds = Inl (ValueError c')" by blast
    have "comprehension w303_id (d # ds) = Inl (ValueError c')"
      using n(2) c'(2) by simp
    with c'(1) show ?thesis by auto
  next
    assume "py_int d = Inl (ValueError d) \<and> w303_id d = Inl (ValueError d)"
    then have "comprehension w303_id (d # ds) = Inl (ValueError d)" by simp
    then show ?thesis by auto
  qed
qed

subsection \<open>What \<open>rewrite_chroms\<close> returns\<close>

lemma rewrite_chroms_w303_plain:
  assumes "stem (genome a0) = ''W303''"
    and "list_all plain_numeral (chrom_train a0 @ chrom_valid a0)"
  shows "rewrite_chroms a0 =
     Inr (a0\<lparr>chrom_train := map (\<lambda>c. ''chr'' @ zero_padded c) (chrom_train a0),
              chrom_valid := map (\<lambda>c. ''chr'' @ zero_padded c) (chrom_valid a0)\<rparr>)"
proof -
  have "comprehension w303_id (chrom_train a0) = Inr (map (\<lambda>c. ''chr'' @ zero_padded c) (chrom_train a0))"
    using assms(2) by (intro comprehension_total w303_id_plain) (auto simp: list_all_iff)
  moreover have "comprehension w303_id (chrom_valid a0) = Inr (map (\<lambda>c. ''chr'' @ zero_padded c) (chrom_valid a0))"
    using assms(2) by (intro comprehension_total w303_id_plain) (auto simp: list_all_iff)
  ultimately show ?thesis
    using assms(1) by (simp add: rewrite_chroms_def)
qed

lemma rewrite_chroms_w303_Inr:
  assumes "stem (genome a0) = ''W303''" and "rewrite_chroms a0 = Inr a"
  shows "list_all2 (\<lambda>c c'. \<exists>n. py_int c = Inr n \<and> c' = ''chr'' @ format_02d n)
           (chrom_train a0) (chrom_train a) \<and>
         list_all2 (\<lambda>c c'. \<exists>n. py_int c = Inr n \<and> c' = ''chr'' @ format_02d n)
           (chrom_valid a0) (chrom_valid a)"
proof -
  from assms obtain ct cv where
    "comprehension w303_id (chrom_train a0) = Inr ct"
    "comprehension w303_id (chrom_valid a0) = Inr cv"
    "a = a0\<lparr>chrom_train := ct, chrom_valid := cv\<rparr>"
    by (auto simp: rewrite_chroms_def split: sum.splits)
  then show ?thesis
    using comprehension_w303_Inr [of "chrom_train a0" ct]
      comprehension_w303_Inr [of "chrom_valid a0" cv] by simp
qed

lemma comprehension_w303_cases:
  "(\<exists>ys. comprehension w303_id cs = Inr ys \<and> (\<forall>c\<in>set cs. \<exists>n. py_int c = Inr n)) \<or>
   (\<exists>c'. c' \<in> set cs \<and> comprehension w303_id cs = Inl (ValueError c'))"
proof (induction cs)
  case Nil
  then show ?case by simp
next
  case (Cons d ds)
  from w303_id_cases [of d] show ?case
  proof
    assume "\<exists>n. py_int d = Inr n \<and> w303_id d = Inr (''chr'' @ format_02d n)"
    then obtain n where n: "py_int d = Inr n" "w303_id d = Inr (''chr'' @ format_02d n)"
      by blast
    from Cons.IH show ?thesis
    proof
      assume "\<exists>ys. comprehension w303_id ds = Inr ys \<and> (\<forall>c\<in>set ds. \<exists>n. py_int c = Inr n)"
      then obtain ys where ys: "comprehension w303_id ds = Inr ys"
        "\<forall>c\<in>set ds. \<exists>n. py_int c = Inr n" by blast
      have "comprehension w303_id (d # ds) = Inr ((''chr'' @ format_02d n) # ys)"
        using n(2) ys(1) by simp
      moreover have "\<forall>c\<in>set (d # ds). \<exists>n. py_int c = Inr n"
        using n(1) ys(2) by simp
      ultimately show ?thesis by blast
    next
      assume "\<exists>c'. c' \<in> set ds \<and> comprehension w303_id ds = Inl (ValueError c')"
      then obtain c' where c': "c' \<in> set ds" "comprehension w303_id ds = Inl (ValueError c')"
        by blast
      have "comprehension w303_id (d # ds) = Inl (ValueError c')"
        using n(2) c'(2) by simp
      moreover have "c' \<in> set (d # ds)" using c'(1) by simp
      ultimately show ?thesis by blast
    qed
  next
    assume "py_int d = Inl (ValueError d) \<and> w303_id d = Inl (ValueError d)"
    then have "comprehension w303_id (d # ds) = Inl (ValueError d)" by simp
    moreover have "d \<in> set (d # ds)" by simp
    ultimately show ?thesis by blast
  qed
qed

lemma rewrite_chroms_w303_Inl:
  assumes w: "stem (genome a0) = ''W303''"
    and c: "c \<in> set (chrom_train a0 @ chrom_valid a0)" and e: "py_int c = Inl e"
  shows "\<exists>c'. c' \<in> set (chrom_train a0 @ chrom_valid a0) \<and> rewrite_chroms a0 = Inl (ValueError c')"
proof -
  from comprehension_w303_cases [of "chrom_train a0"] show ?thesis
  proof
    assume "\<exists>c'. c' \<in> set (chrom_train a0) \<and>
      comprehension w303_id (chrom_train a0) = Inl (ValueError c')"
    then obtain c' where c': "c' \<in> set (chrom_train a0)"
      "comprehension w303_id (chrom_train a0) = Inl (ValueError c')" by blast
    have "rewrite_chroms a0 = Inl (ValueError c')"
      using w c'(2) by (simp add: rewrite_chroms_def)
    moreover have "c' \<in> set (chrom_train a0 @ chrom_valid a0)" using c'(1) by simp
    ultimately show ?thesis by blast
  next
    assume "\<exists>ys. comprehension w303_id (chrom_train a0) = Inr ys \<and>
      (\<forall>c\<in>set (chrom_train a0). \<exists>n. py_int c = Inr n)"
    then obtain ct where ct: "comprehension w303_id (chrom_train a0) = Inr ct"
      "\<forall>c\<in>set (chrom_train a0). \<exists>n. py_int c = Inr n" by blast
    from ct(2) c e have cv: "c \<in> set (chrom_valid a0)" by auto
    from comprehension_w303_Inl [OF cv e] obtain c' where c': "c' \<in> set (chrom_valid a0)"
      "comprehension w303_id (chrom_valid a0) = Inl (ValueError c')" by blast
    have "rewrite_chroms a0 = Inl (ValueError c')"
      using w ct(1) c'(2) by (simp add: rewrite_chroms_def)
    moreover have "c' \<in> set (chrom_train a0 @ chrom_valid a0)" using c'(1) by simp
    ultimately show ?thesis by blast
  qed
qed

lemma parsing_rewriting_fails:
  "rewrite_chroms a0 = Inl e \<Longrightarrow> is_file fs (genome a0) \<Longrightarrow> is_file fs (labels a0) \<Longrightarrow>
   parsing fs a0 = Inl e"
  by (simp add: parsing_def)

lemma rewrite_chroms_mmmyco:
  assumes "stem (genome a0) = ''W303_Mmmyco''"
  shows "rewrite_chroms a0 =
     Inr (a0\<lparr>chrom_train := map (\<lambda>c. if c = ''Mmmyco'' then c else ''chr'' @ c) (chrom_train a0),
              chrom_valid := map (\<lambda>c. if c = ''Mmmyco'' then c else ''chr'' @ c) (chrom_valid a0)\<rparr>)"
proof -
  have "mmmyco_id = (\<lambda>c. if c = ''Mmmyco'' then c else ''chr'' @ c)"
    by (rule ext) (simp add: mmmyco_id_def)
  then show ?thesis using assms by (simp add: rewrite_chroms_def)
qed

lemma main_merge_chroms:
  assumes "MergeChroms chroms file \<in> set (fst (main fs md a0))"
  shows "\<exists>a. parsing fs a0 = Inr a \<and> (chroms = chrom_train a \<or> chroms = chrom_valid a)"
  using assms
  by (auto simp: main_def and_then_def local_def call_def
           split: sum.splits option.splits prod.splits)

subsection \<open>The script on a genome named W303\<close>

lemma w303_id_examples:
  "w303_id ''1'' = Inr ''chr01''" "w303_id ''12'' = Inr ''chr12''" "w303_id ''3'' = Inr ''chr03''"
  "w303_id ''007'' = Inr ''chr07''" "w303_id ''X'' = Inl (ValueError ''X'')"
  by (simp_all add: w303_id_def py_int_def strip_def py_isspace_def int_unsigned_def
        digit_val_def max_str_digits_def format_02d_def decimal.simps digit_char_def)

lemma w303_args_fields:
  "genome w303_args = ''data/W303.npz''" "labels w303_args = ''data/W303_signal.npz''"
  "chrom_train w303_args = [''1'', ''12'']" "chrom_valid w303_args = [''3'']"
  "remove_indices w303_args = None" "architecture w303_args = ''mnase_Etienne''"
  "output_dir w303_args = ''out''" "seed w303_args = Some 7" "winsize w303_args = 2001"
  "distribute w303_args = False"
  by (simp_all add: w303_args_def example_args_def)

lemma dom_w303 [simp]:
  "dom w303_genome = {''chr01'', ''chr12'', ''chr03'', ''chr07'', ''chrV'', ''Mmmyco''}"
  "dom w303_signal = {''chr01'', ''chr12'', ''chr03'', ''chr07'', ''chrV'', ''Mmmyco''}"
  by (auto simp: w303_genome_def w303_signal_def dom_map_of_conv_image_fst)

lemma np_load_w303:
  "is_file example_fs ''data/W303.npz''" "is_file example_fs ''data/W303_signal.npz''"
  "np_load_genome example_fs ''data/W303.npz'' = Some w303_genome"
  "np_load_labels example_fs ''data/W303_signal.npz'' = Some w303_signal"
  by (simp_all add: example_fs_def)

lemma mmmyco_args_fields:
  "genome mmmyco_args = ''data/W303_Mmmyco.npz''" "labels mmmyco_args = ''data/W303_signal.npz''"
  "chrom_train mmmyco_args = [''V'', ''Mmmyco'']" "chrom_valid mmmyco_args = [''01'']"
  by (simp_all add: mmmyco_args_def example_args_def)

lemma parsing_w303:
  "parsing example_fs w303_args =
     Inr (w303_args\<lparr>chrom_train := [''chr01'', ''chr12''], chrom_valid := [''chr03'']\<rparr>)"
proof -
  have "rewrite_chroms w303_args =
      Inr (w303_args\<lparr>chrom_train := [''chr01'', ''chr12''], chrom_valid := [''chr03'']\<rparr>)"
    by (simp add: rewrite_chroms_def w303_args_fields w303_id_examples)
  then show ?thesis
    by (simp add: parsing_def w303_args_fields np_load_w303 find_None_iff)
qed

lemma main_w303:
  "main example_fs example_modules w303_args =
     ([WriteExperimentInfo ''out'', SetSeed 7, BuildModel mnase_Etienne 2001 False,
       MergeChroms [''chr01'', ''chr12''] ''data/W303.npz'',
       MergeChroms [''chr03''] ''data/W303.npz'',
       MergeChroms [''chr01'', ''chr12''] ''data/W303_signal.npz'',
       MergeChroms [''chr03''] ''data/W303_signal.npz'',
       Construct Train (generator_train
         (w303_args\<lparr>chrom_train := [''chr01'', ''chr12''], chrom_valid := [''chr03'']\<rparr>)
         ([''chr01'', ''chr12''], ''data/W303.npz'')
         ([''chr01'', ''chr12''], ''data/W303_signal.npz'') None),
       Construct Valid (generator_valid
         (w303_args\<lparr>chrom_train := [''chr01'', ''chr12''], chrom_valid := [''chr03'']\<rparr>)
         ([''chr03''], ''data/W303.npz'') ([''chr03''], ''data/W303_signal.npz'') None),
       Fit, SaveModel], Inr ())"
  by (simp add: main_def parsing_w303 load_remove_indices_def w303_args_fields
        and_then_def local_def call_def model_dict_def example_modules_def)

text \<open>
  Claim C8, as it is worded, fails. The claim: when the genome file's stem is \<open>W303\<close>,
  every training and validation identifier given on the command line is rewritten to
  \<open>chr\<close> followed by the identifier zero-padded to two digits.

  The script computes \<open>"chr" + format(int(c), "02d")\<close>. The identifier \<open>007\<close> is read
  as the number 7 and becomes \<open>chr07\<close>, which is not \<open>chr\<close> followed by \<open>007\<close>
  padded with zeros; the identifier \<open>X\<close> is no integer literal, so \<open>int\<close> raises
  \<open>ValueError\<close> and nothing is rewritten.
\<close>

theorem w303_rewriting_counterexample:
  "stem (genome (w303_args\<lparr>chrom_train := [''007'']\<rparr>)) = ''W303'' \<and>
   parsing example_fs (w303_args\<lparr>chrom_train := [''007'']\<rparr>) =
     Inr (w303_args\<lparr>chrom_train := [''chr07''], chrom_valid := [''chr03'']\<rparr>) \<and>
   [''chr07''] \<noteq> map (\<lambda>c. ''chr'' @ zero_padded c) [''007''] \<and>
   stem (genome (w303_args\<lparr>chrom_train := [''X'']\<rparr>)) = ''W303'' \<and>
   parsing example_fs (w303_args\<lparr>chrom_train := [''X'']\<rparr>) = Inl (ValueError ''X'')"
proof -
  have 1: "rewrite_chroms (w303_args\<lparr>chrom_train := [''007'']\<rparr>) =
      Inr (w303_args\<lparr>chrom_train := [''chr07''], chrom_valid := [''chr03'']\<rparr>)"
    by (simp add: rewrite_chroms_def w303_args_fields w303_id_examples)
  have 2: "parsing example_fs (w303_args\<lparr>chrom_train := [''007'']\<rparr>) =
      Inr (w303_args\<lparr>chrom_train := [''chr07''], chrom_valid := [''chr03'']\<rparr>)"
    by (simp add: parsing_def 1 w303_args_fields np_load_w303 find_None_iff)
  have 3: "rewrite_chroms (w303_args\<lparr>chrom_train := [''X'']\<rparr>) = Inl (ValueError ''X'')"
    by (simp add: rewrite_chroms_def w303_args_fields w303_id_examples)
  have 4: "parsing example_fs (w303_args\<lparr>chrom_train := [''X'']\<rparr>) = Inl (ValueError ''X'')"
    by (simp add: parsing_def 3 w303_args_fields np_load_w303)
  show ?thesis
    using 2 4 by (simp add: w303_args_fields zero_padded_def)
qed

text \<open>
  Claim C8, amended. When the genome file's stem is \<open>W303\<close>, the rewriting of lines
  231 to 237 (\<open>rewrite_chroms\<close>) replaces every training and validation identifier
  \<open>c\<close> by \<open>chr\<close> followed by \<open>format(int(c), "02d")\<close>. For an identifier that is a
  plain decimal numeral (digits only, at most 4300 of them, no leading zero unless it has
  at most two digits) that is \<open>chr\<close> followed by the identifier zero-padded to two
  digits. An identifier that \<open>int\<close> rejects makes the rewriting raise \<open>ValueError\<close>,
  and \<open>parsing\<close> raises it when the genome file and the labels file exist (their
  existence is checked first, lines 223 to 230). When the stem is \<open>W303_Mmmyco\<close>,
  every identifier except \<open>Mmmyco\<close> is prefixed with \<open>chr\<close>. The rewriting comes
  before the archive-membership validation and before the data is loaded: when
  \<open>parsing\<close> returns, it returns the rewritten command line, whose identifiers are
  those found in the archives, and the chromosome lists handed to \<open>merge_chroms\<close>
  are the rewritten ones.
\<close>

theorem identifiers_rewritten_before_validation:
  "(stem (genome a0) = ''W303'' \<longrightarrow>
      (list_all plain_numeral (chrom_train a0 @ chrom_valid a0) \<longrightarrow>
         rewrite_chroms a0 =
           Inr (a0\<lparr>chrom_train := map (\<lambda>c. ''chr'' @ zero_padded c) (chrom_train a0),
                    chrom_valid := map (\<lambda>c. ''chr'' @ zero_padded c) (chrom_valid a0)\<rparr>)) \<and>
      (\<forall>a. rewrite_chroms a0 = Inr a \<longrightarrow>
         list_all2 (\<lambda>c c'. \<exists>n. py_int c = Inr n \<and> c' = ''chr'' @ format_02d n)
           (chrom_train a0) (chrom_train a) \<and>
         list_all2 (\<lambda>c c'. \<exists>n. py_int c = Inr n \<and> c' = ''chr'' @ format_02d n)
           (chrom_valid a0) (chrom_valid a)) \<and>
      (\<forall>c e. c \<in> set (chrom_train a0 @ chrom_valid a0) \<and> py_int c = Inl e \<longrightarrow>
         (\<exists>c'. c' \<in> set (chrom_train a0 @ chrom_valid a0) \<and>
               rewrite_chroms a0 = Inl (ValueError c') \<and>
               (is_file fs (genome a0) \<and> is_file fs (labels a0) \<longrightarrow>
                  parsing fs a0 = Inl (ValueError c'))))) \<and>
   (stem (genome a0) = ''W303_Mmmyco'' \<longrightarrow>
      rewrite_chroms a0 =
        Inr (a0\<lparr>chrom_train := map (\<lambda>c. if c = ''Mmmyco'' then c else ''chr'' @ c) (chrom_train a0),
                 chrom_valid := map (\<lambda>c. if c = ''Mmmyco'' then c else ''chr'' @ c) (chrom_valid a0)\<rparr>)) \<and>
   (\<forall>a. parsing fs a0 = Inr a \<longrightarrow>
      rewrite_chroms a0 = Inr a \<and>
      (\<exists>g s. np_load_genome fs (genome a0) = Some g \<and> np_load_labels fs (labels a0) = Some s \<and>
             set (chrom_train a @ chrom_valid a) \<subseteq> dom g \<inter> dom s)) \<and>
   (\<forall>chroms file. MergeChroms chroms file \<in> set (fst (main fs md a0)) \<longrightarrow>
      (\<exists>a. rewrite_chroms a0 = Inr a \<and> (chroms = chrom_train a \<or> chroms = chrom_valid a)))"
proof (intro conjI impI allI)
  assume "stem (genome a0) = ''W303''" "list_all plain_numeral (chrom_train a0 @ chrom_valid a0)"
  then show "rewrite_chroms a0 =
      Inr (a0\<lparr>chrom_train := map (\<lambda>c. ''chr'' @ zero_padded c) (chrom_train a0),
               chrom_valid := map (\<lambda>c. ''chr'' @ zero_padded c) (chrom_valid a0)\<rparr>)"
    by (rule rewrite_chroms_w303_plain)
next
  fix a
  assume "stem (genome a0) = ''W303''" "rewrite_chroms a0 = Inr a"
  from rewrite_chroms_w303_Inr [OF this]
  show "list_all2 (\<lambda>c c'. \<exists>n. py_int c = Inr n \<and> c' = ''chr'' @ format_02d n)
      (chrom_train a0) (chrom_train a)"
    and "list_all2 (\<lambda>c c'. \<exists>n. py_int c = Inr n \<and> c' = ''chr'' @ format_02d n)
      (chrom_valid a0) (chrom_valid a)"
    by simp_all
next
  fix c e
  assume "stem (genome a0) = ''W303''"
    "c \<in> set (chrom_train a0 @ chrom_valid a0) \<and> py_int c = Inl e"
  then obtain c' where c': "c' \<in> set (chrom_train a0 @ chrom_valid a0)"
    "rewrite_chroms a0 = Inl (ValueError c')"
    using rewrite_chroms_w303_Inl [of a0 c e] by blast
  have "is_file fs (genome a0) \<and> is_file fs (labels a0) \<longrightarrow>
      parsing fs a0 = Inl (ValueError c')"
    using parsing_rewriting_fails [OF c'(2)] by blast
  with c' show "\<exists>c'. c' \<in> set (chrom_train a0 @ chrom_valid a0) \<and>
      rewrite_chroms a0 = Inl (ValueError c') \<and>
      (is_file fs (genome a0) \<and> is_file fs (labels a0) \<longrightarrow>
         parsing fs a0 = Inl (ValueError c'))"
    by blast
next
  assume "stem (genome a0) = ''W303_Mmmyco''"
  then show "rewrite_chroms a0 =
      Inr (a0\<lparr>chrom_train := map (\<lambda>c. if c = ''Mmmyco'' then c else ''chr'' @ c) (chrom_train a0),
               chrom_valid := map (\<lambda>c. if c = ''Mmmyco'' then c else ''chr'' @ c) (chrom_valid a0)\<rparr>)"
    by (rule rewrite_chroms_mmmyco)
next
  fix a
  assume p: "parsing fs a0 = Inr a"
  show "rewrite_chroms a0 = Inr a" using p by (rule parsing_rewrites)
  show "\<exists>g s. np_load_genome fs (genome a0) = Some g \<and> np_load_labels fs (labels a0) = Some s \<and>
      set (chrom_train a @ chrom_valid a) \<subseteq> dom g \<inter> dom s"
    using p by (rule parsing_validates)
next
  fix chroms npz
  assume "MergeChroms chroms npz \<in> set (fst (main fs md a0))"
  from main_merge_chroms [OF this] obtain a where
    "parsing fs a0 = Inr a" "chroms = chrom_train a \<or> chroms = chrom_valid a" by blast
  then show "\<exists>a. rewrite_chroms a0 = Inr a \<and> (chroms = chrom_train a \<or> chroms = chrom_valid a)"
    using parsing_rewrites by blast
qed

theorem identifiers_rewritten_before_validation_witness:
  "stem (genome w303_args) = ''W303'' \<and>
   list_all plain_numeral (chrom_train w303_args @ chrom_valid w303_args) \<and>
   rewrite_chroms w303_args =
     Inr (w303_args\<lparr>chrom_train := [''chr01'', ''chr12''], chrom_valid := [''chr03'']\<rparr>) \<and>
   list_all2 (\<lambda>c c'. \<exists>n. py_int c = Inr n \<and> c' = ''chr'' @ format_02d n)
     [''1'', ''12''] [''chr01'', ''chr12''] \<and>
   (\<exists>c'. rewrite_chroms (w303_args\<lparr>chrom_valid := [''X'']\<rparr>) = Inl (ValueError c') \<and>
         parsing example_fs (w303_args\<lparr>chrom_valid := [''X'']\<rparr>) = Inl (ValueError c')) \<and>
   stem (genome mmmyco_args) = ''W303_Mmmyco'' \<and>
   rewrite_chroms mmmyco_args =
     Inr (mmmyco_args\<lparr>chrom_train := [''chrV'', ''Mmmyco''], chrom_valid := [''chr01'']\<rparr>) \<and>
   parsing example_fs w303_args =
     Inr (w303_args\<lparr>chrom_train := [''chr01'', ''chr12''], chrom_valid := [''chr03'']\<rparr>) \<and>
   {''chr01'', ''chr12'', ''chr03''} \<subseteq> dom w303_genome \<inter> dom w303_signal \<and>
   MergeChroms [''chr01'', ''chr12''] ''data/W303.npz''
     \<in> set (fst (main example_fs example_modules w303_args))"
proof -
  note inst = identifiers_rewritten_before_validation [of w303_args example_fs example_modules]
  have w: "stem (genome w303_args) = ''W303''" by (simp add: w303_args_fields)
  have pl: "list_all plain_numeral (chrom_train w303_args @ chrom_valid w303_args)"
    by (simp add: w303_args_fields plain_numeral_def digit_val_def max_str_digits_def)
  from inst w pl have rw: "rewrite_chroms w303_args =
      Inr (w303_args\<lparr>chrom_train := map (\<lambda>c. ''chr'' @ zero_padded c) (chrom_train w303_args),
                     chrom_valid := map (\<lambda>c. ''chr'' @ zero_padded c) (chrom_valid w303_args)\<rparr>)"
    by blast
  then have rw': "rewrite_chroms w303_args =
      Inr (w303_args\<lparr>chrom_train := [''chr01'', ''chr12''], chrom_valid := [''chr03'']\<rparr>)"
    by (simp add: w303_args_fields zero_padded_def)
  from inst w rw' have "list_all2 (\<lambda>c c'. \<exists>n. py_int c = Inr n \<and> c' = ''chr'' @ format_02d n)
      (chrom_train w303_args)
      (chrom_train (w303_args\<lparr>chrom_train := [''chr01'', ''chr12''], chrom_valid := [''chr03'']\<rparr>))"
    by blast
  then have l2: "list_all2 (\<lambda>c c'. \<exists>n. py_int c = Inr n \<and> c' = ''chr'' @ format_02d n)
      [''1'', ''12''] [''chr01'', ''chr12'']"
    by (simp add: w303_args_fields)
  have xw: "stem (genome (w303_args\<lparr>chrom_valid := [''X'']\<rparr>)) = ''W303''"
    by (simp add: w303_args_fields)
  have xin: "''X'' \<in> set (chrom_train (w303_args\<lparr>chrom_valid := [''X'']\<rparr>)
      @ chrom_valid (w303_args\<lparr>chrom_valid := [''X'']\<rparr>)) \<and> py_int ''X'' = Inl (ValueError ''X'')"
    by (simp add: py_int_def strip_def py_isspace_def int_unsigned_def digit_val_def
          max_str_digits_def)
  have xf: "is_file example_fs (genome (w303_args\<lparr>chrom_valid := [''X'']\<rparr>)) \<and>
      is_file example_fs (labels (w303_args\<lparr>chrom_valid := [''X'']\<rparr>))"
    by (simp add: w303_args_fields example_fs_def)
  from identifiers_rewritten_before_validation
    [of "w303_args\<lparr>chrom_valid := [''X'']\<rparr>" example_fs example_modules] xw xin xf
  have bad: "\<exists>c'. rewrite_chroms (w303_args\<lparr>chrom_valid := [''X'']\<rparr>) = Inl (ValueError c') \<and>
      parsing example_fs (w303_args\<lparr>chrom_valid := [''X'']\<rparr>) = Inl (ValueError c')"
    by blast
  have m: "stem (genome mmmyco_args) = ''W303_Mmmyco''" by (simp add: mmmyco_args_fields)
  from identifiers_rewritten_before_validation [of mmmyco_args example_fs example_modules] m
  have "rewrite_chroms mmmyco_args =
      Inr (mmmyco_args\<lparr>chrom_train := map (\<lambda>c. if c = ''Mmmyco'' then c else ''chr'' @ c)
                                         (chrom_train mmmyco_args),
                       chrom_valid := map (\<lambda>c. if c = ''Mmmyco'' then c else ''chr'' @ c)
                                         (chrom_valid mmmyco_args)\<rparr>)"
    by blast
  then have mm: "rewrite_chroms mmmyco_args =
      Inr (mmmyco_args\<lparr>chrom_train := [''chrV'', ''Mmmyco''], chrom_valid := [''chr01'']\<rparr>)"
    by (simp add: mmmyco_args_fields)
  have p: "parsing example_fs w303_args =
      Inr (w303_args\<lparr>chrom_train := [''chr01'', ''chr12''], chrom_valid := [''chr03'']\<rparr>)"
    by (rule parsing_w303)
  from inst p have "\<exists>g s. np_load_genome example_fs (genome w303_args) = Some g \<and>
      np_load_labels example_fs (labels w303_args) = Some s \<and>
      set (chrom_train (w303_args\<lparr>chrom_train := [''chr01'', ''chr12''], chrom_valid := [''chr03'']\<rparr>)
         @ chrom_valid (w303_args\<lparr>chrom_train := [''chr01'', ''chr12''], chrom_valid := [''chr03'']\<rparr>))
        \<subseteq> dom g \<inter> dom s"
    by blast
  then have sub: "{''chr01'', ''chr12'', ''chr03''} \<subseteq> dom w303_genome \<inter> dom w303_signal"
    by (simp add: w303_args_fields np_load_w303)
  have mc: "MergeChroms [''chr01'', ''chr12''] ''data/W303.npz''
      \<in> set (fst (main example_fs example_modules w303_args))"
    unfolding main_w303 by simp
  show ?thesis
    using w pl rw' l2 bad m mm p sub mc by blast
qed

section \<open>The window sampler: one coverage cycle\<close>

lemma ceil_bounds:
  fixes N b :: nat
  assumes "0 < b" "0 < N"
  shows "N \<le> ((N + b - 1) div b) * b" and "((N + b - 1) div b - 1) * b < N"
proof -
  define q where "q = (N + b - 1) div b"
  have lo: "q * b \<le> N + b - 1" unfolding q_def by (rule div_times_less_eq_dividend)
  have hi: "N + b - 1 < b + q * b" unfolding q_def using assms(1) by (rule dividend_less_div_times)
  from hi assms show "N \<le> ((N + b - 1) div b) * b" unfolding q_def [symmetric] by arith
  have "(q - 1) * b = q * b - b" by (simp add: diff_mult_distrib)
  with lo assms show "((N + b - 1) div b - 1) * b < N" unfolding q_def [symmetric] by arith
qed

lemma fetch_pending:
  assumes "\<not> ws_same_samples st" and "pending st \<noteq> []"
  shows "fetch shuffle choice st =
     (take (ws_batch_size st) (pending st),
      st\<lparr>pending := drop (ws_batch_size st) (pending st),
         used := used st @ take (ws_batch_size st) (pending st)\<rparr>)"
  using assms by (simp add: fetch_def Let_def)

lemma fetches_Suc:
  "fetches shuffle choice (Suc n) st =
     (fst (fetch shuffle choice st)
        # fst (fetches shuffle choice n (snd (fetch shuffle choice st))),
      snd (fetches shuffle choice n (snd (fetch shuffle choice st))))"
  by (simp add: split_beta)

lemma fetches_within_cycle:
  assumes "\<not> ws_same_samples st" and "0 < ws_batch_size st" and "pending st \<noteq> []"
    and "length (pending st) \<le> n * ws_batch_size st"
    and "(n - 1) * ws_batch_size st < length (pending st)"
  shows "concat (fst (fetches shuffle choice n st)) = pending st \<and>
         (\<forall>batch \<in> set (butlast (fst (fetches shuffle choice n st))). length batch = ws_batch_size st) \<and>
         length (fst (fetches shuffle choice n st)) = n \<and>
         snd (fetches shuffle choice n st) = st\<lparr>pending := [], used := used st @ pending st\<rparr>"
  using assms
proof (induction n arbitrary: st)
  case 0
  then show ?case by simp
next
  case (Suc n)
  define b where "b = ws_batch_size st"
  define p where "p = pending st"
  define st' where "st' = st\<lparr>pending := drop b p, used := used st @ take b p\<rparr>"
  have f: "fetch shuffle choice st = (take b p, st')"
    unfolding b_def p_def st'_def using Suc.prems(1,3) by (rule fetch_pending)
  have fs: "fetches shuffle choice (Suc n) st =
      (take b p # fst (fetches shuffle choice n st'), snd (fetches shuffle choice n st'))"
    unfolding fetches_Suc f by simp
  have st'_fields: "ws_batch_size st' = b" "pending st' = drop b p"
    "used st' = used st @ take b p" "ws_same_samples st' = ws_same_samples st"
    by (simp_all add: st'_def b_def)
  show ?case
  proof (cases n)
    case 0
    then have "length p \<le> b" using Suc.prems(4) by (simp add: b_def p_def)
    then have "take b p = p" "drop b p = []" by simp_all
    then show ?thesis
      unfolding fs using 0 by (simp add: st'_def p_def)
  next
    case (Suc m)
    have "b \<le> n * b" using Suc by simp
    moreover have "n * b < length p" using Suc.prems(5) by (simp add: b_def p_def)
    ultimately have long: "b < length p" by (rule le_less_trans)
    have 0: "\<not> ws_same_samples st'" using Suc.prems(1) by (simp add: st'_fields)
    have 1: "0 < ws_batch_size st'" using Suc.prems(2) by (simp add: st'_fields b_def)
    have 2: "pending st' \<noteq> []" using long by (simp add: st'_fields)
    have 3: "length (pending st') \<le> n * ws_batch_size st'"
      using Suc.prems(4) long by (simp add: st'_fields b_def p_def)
    have 4: "(n - 1) * ws_batch_size st' < length (pending st')"
      using Suc.prems(5) long Suc by (simp add: st'_fields b_def p_def)
    from Suc.IH [OF 0 1 2 3 4] have
      c: "concat (fst (fetches shuffle choice n st')) = drop b p" and
      l: "\<forall>batch \<in> set (butlast (fst (fetches shuffle choice n st'))). length batch = b" and
      k: "length (fst (fetches shuffle choice n st')) = n" and
      e: "snd (fetches shuffle choice n st') = st'\<lparr>pending := [], used := used st' @ pending st'\<rparr>"
      by (simp_all add: st'_fields)
    have first: "length (take b p) = b" using long by simp
    have ne: "fst (fetches shuffle choice n st') \<noteq> []" using k Suc by auto
    have g1: "concat (fst (fetches shuffle choice (Suc n) st)) = pending st"
      unfolding fs using c by (simp add: p_def)
    have g2: "\<forall>batch \<in> set (butlast (fst (fetches shuffle choice (Suc n) st))).
        length batch = ws_batch_size st"
      unfolding fs using l first ne by (simp add: b_def)
    have g3: "length (fst (fetches shuffle choice (Suc n) st)) = Suc n"
      unfolding fs using k by simp
    have g4: "snd (fetches shuffle choice (Suc n) st) = st\<lparr>pending := [], used := used st @ pending st\<rparr>"
      unfolding fs using e by (simp add: st'_def p_def)
    show ?thesis using g1 g2 g3 g4 by blast
  qed
qed

lemma fetch_cycle_start:
  assumes "\<not> ws_same_samples st" and "pending st = []"
    and "shuffle (rng st) (eligible st) = (order, r')" and "order \<noteq> []"
  shows "fetch shuffle choice st =
     fetch shuffle choice (st\<lparr>pending := order, used := [], rng := r'\<rparr>)"
  using assms by (simp add: fetch_def Let_def)

lemma mset_rotate1_eq: "mset (rotate1 xs) = mset xs"
  by (cases xs) simp_all

lemma mset_rotate_eq: "mset (rotate r xs) = mset xs"
  by (induction r) (simp_all add: mset_rotate1_eq)

lemma example_fetches:
  "fst (fetches example_shuffle example_choice 4 example_sampler) = [[4, 5, 6], [7, 8, 9], [0, 1, 2], [3]]"
  by code_simp

text \<open>
  Claim C6. With \<open>same_samples=False\<close>, drawing \<open>N = |eligible|\<close> positions across
  consecutive batches within one coverage cycle yields each eligible position exactly
  once: the sampler draws without replacement until the eligible set is exhausted, and no
  position repeats before the cycle completes.

  For the sampler modelled from the specification, with any shuffle that returns a
  permutation of its argument, a positive batch size and distinct eligible positions:
  from the start of a coverage cycle (nothing pending), the \<open>ceil(N / batch_size)\<close>
  batches of the cycle hold, taken together, every eligible position exactly once and
  nothing else, so none repeats; every batch but the last is full; the tracker then
  holds exactly the positions that were drawn; and the cycle ends with nothing pending
  and the sampler otherwise as it was, so that the next request starts a new cycle of
  which the same holds.
\<close>

theorem coverage_cycle_exactly_once:
  assumes perm: "\<And>r xs. mset (fst (shuffle r xs)) = mset xs"
    and mode: "\<not> ws_same_samples st"
    and b: "0 < ws_batch_size st"
    and start: "pending st = []"
    and d: "distinct (eligible st)"
  shows "mset (concat (fst (fetches shuffle choice (batches_per_cycle st) st))) = mset (eligible st) \<and>
         distinct (concat (fst (fetches shuffle choice (batches_per_cycle st) st))) \<and>
         length (fst (fetches shuffle choice (batches_per_cycle st) st)) = batches_per_cycle st \<and>
         (\<forall>batch \<in> set (butlast (fst (fetches shuffle choice (batches_per_cycle st) st))).
            length batch = ws_batch_size st) \<and>
         (eligible st \<noteq> [] \<longrightarrow>
            used (snd (fetches shuffle choice (batches_per_cycle st) st)) =
              concat (fst (fetches shuffle choice (batches_per_cycle st) st))) \<and>
         pending (snd (fetches shuffle choice (batches_per_cycle st) st)) = [] \<and>
         eligible (snd (fetches shuffle choice (batches_per_cycle st) st)) = eligible st \<and>
         ws_batch_size (snd (fetches shuffle choice (batches_per_cycle st) st)) = ws_batch_size st \<and>
         \<not> ws_same_samples (snd (fetches shuffle choice (batches_per_cycle st) st))"
proof (cases "eligible st = []")
  case True
  then have "batches_per_cycle st = 0"
    using b by (simp add: batches_per_cycle_def)
  then show ?thesis using True start mode by simp
next
  case False
  define n where "n = batches_per_cycle st"
  obtain order r' where sh: "shuffle (rng st) (eligible st) = (order, r')"
    by (cases "shuffle (rng st) (eligible st)")
  have m: "mset order = mset (eligible st)"
    using perm [of "rng st" "eligible st"] sh by simp
  then have len: "length order = length (eligible st)" by (rule mset_eq_length)
  have ne: "order \<noteq> []" using len False by auto
  have dist: "distinct order" using m d by (metis mset_eq_imp_distinct_iff)
  define st1 where "st1 = st\<lparr>pending := order, used := [], rng := r'\<rparr>"
  have st1: "ws_batch_size st1 = ws_batch_size st" "pending st1 = order"
    "ws_same_samples st1 = ws_same_samples st"
    by (simp_all add: st1_def)
  have pos: "0 < length (eligible st)" using False by simp
  have n_pos: "0 < n"
  proof (rule ccontr)
    assume "\<not> 0 < n"
    then have "(length (eligible st) + ws_batch_size st - 1) div ws_batch_size st = 0"
      by (simp add: n_def batches_per_cycle_def)
    with ceil_bounds(1) [OF b pos] pos show False by simp
  qed
  have same: "fetches shuffle choice n st = fetches shuffle choice n st1"
  proof -
    from n_pos obtain k where k: "n = Suc k" by (cases n) auto
    show ?thesis
      unfolding k fetches_Suc st1_def
        fetch_cycle_start [of st shuffle order r' choice, OF mode start sh ne] ..
  qed
  have 0: "\<not> ws_same_samples st1" using mode by (simp add: st1)
  have 1: "0 < ws_batch_size st1" using b by (simp add: st1)
  have 2: "pending st1 \<noteq> []" using ne by (simp add: st1)
  have 3: "length (pending st1) \<le> n * ws_batch_size st1"
    using ceil_bounds(1) [OF b pos] by (simp add: st1 len n_def batches_per_cycle_def)
  have 4: "(n - 1) * ws_batch_size st1 < length (pending st1)"
    using ceil_bounds(2) [OF b pos] by (simp add: st1 len n_def batches_per_cycle_def)
  from fetches_within_cycle [OF 0 1 2 3 4, of shuffle choice] have
    c: "concat (fst (fetches shuffle choice n st)) = order" and
    l: "\<forall>batch \<in> set (butlast (fst (fetches shuffle choice n st))). length batch = ws_batch_size st" and
    k: "length (fst (fetches shuffle choice n st)) = n" and
    e: "snd (fetches shuffle choice n st) = st1\<lparr>pending := [], used := used st1 @ pending st1\<rparr>"
    unfolding same by (simp_all add: st1)
  have fin: "pending (snd (fetches shuffle choice n st)) = []"
    "used (snd (fetches shuffle choice n st)) = order"
    "eligible (snd (fetches shuffle choice n st)) = eligible st"
    "ws_batch_size (snd (fetches shuffle choice n st)) = ws_batch_size st"
    "\<not> ws_same_samples (snd (fetches shuffle choice n st))"
    unfolding e using mode by (simp_all add: st1_def)
  show ?thesis
    using c l k m dist fin unfolding n_def [symmetric] by simp
qed

theorem coverage_cycle_exactly_once_witness:
  "batches_per_cycle example_sampler = 4 \<and>
   fst (fetches example_shuffle example_choice 4 example_sampler) = [[4, 5, 6], [7, 8, 9], [0, 1, 2], [3]] \<and>
   mset (concat (fst (fetches example_shuffle example_choice 4 example_sampler)))
     = mset [0, 1, 2, 3, 4, 5, 6, 7, 8, 9] \<and>
   distinct (concat (fst (fetches example_shuffle example_choice 4 example_sampler))) \<and>
   pending (snd (fetches example_shuffle example_choice 4 example_sampler)) = []"
proof -
  have n: "batches_per_cycle example_sampler = 4"
    by (simp add: batches_per_cycle_def example_sampler_def)
  have 1: "\<And>r xs. mset (fst (example_shuffle r xs)) = mset xs"
    by (simp add: example_shuffle_def mset_rotate_eq)
  have 2: "\<not> ws_same_samples example_sampler" "0 < ws_batch_size example_sampler"
    "pending example_sampler = []"
    "distinct (eligible example_sampler)"
    by (simp_all add: example_sampler_def)
  from coverage_cycle_exactly_once [of example_shuffle example_sampler example_choice, OF 1 2]
  show ?thesis
    unfolding n using example_fetches by (simp add: example_sampler_def)
qed


end
